theory Spec2Isabelle
  imports Main "HOL-Library.Monad_Syntax"
begin

section \<open>Python values used by the audit pipeline\<close>

text \<open>
  A Python \<^verbatim>\<open>str\<close> is a sequence of Unicode code points, so it is modelled as a list of
  naturals (\<^verbatim>\<open>ord\<close> of each character). \<open>lit\<close> turns an ASCII literal into such a list.
\<close>

type_synonym pystr = "nat list"

definition lit :: "string \<Rightarrow> pystr" where
  "lit s = map of_char s"

definition NL :: nat where
  "NL = 10"

definition BACKTICK :: nat where
  "BACKTICK = 96"

text \<open>
  \<^verbatim>\<open>str.isspace\<close> on one character; the class \<^verbatim>\<open>\s\<close> of \<^verbatim>\<open>re\<close> on a \<^verbatim>\<open>str\<close> pattern is the
  same set: U+0009..U+000D, U+001C..U+0020, U+0085, U+00A0, U+1680, U+2000..U+200A,
  U+2028, U+2029, U+202F, U+205F, U+3000.
\<close>

definition is_space :: "nat \<Rightarrow> bool" where
  "is_space c \<longleftrightarrow>
     (9 \<le> c \<and> c \<le> 13) \<or> (28 \<le> c \<and> c \<le> 32) \<or> c = 133 \<or> c = 160 \<or> c = 5760 \<or>
     (8192 \<le> c \<and> c \<le> 8202) \<or> c = 8232 \<or> c = 8233 \<or> c = 8239 \<or> c = 8287 \<or> c = 12288"

text \<open>\<^verbatim>\<open>s.strip()\<close>: leading and trailing whitespace removed.\<close>

definition py_strip :: "pystr \<Rightarrow> pystr" where
  "py_strip s = rev (dropWhile is_space (rev (dropWhile is_space s)))"

text \<open>\<^verbatim>\<open>s.startswith(p)\<close> and \<^verbatim>\<open>p in s\<close> on strings.\<close>

fun startswith :: "'a list \<Rightarrow> 'a list \<Rightarrow> bool" where
  "startswith s [] = True"
| "startswith [] (p # ps) = False"
| "startswith (c # cs) (p # ps) = (c = p \<and> startswith cs ps)"

fun contains :: "'a list \<Rightarrow> 'a list \<Rightarrow> bool" where
  "contains [] n = (n = [])"
| "contains (c # cs) n = (startswith (c # cs) n \<or> contains cs n)"

text \<open>
  Python floats are only carried around by this code, never computed with, so a float is
  kept as a mantissa and a binary exponent, or one of the three special values that
  \<^verbatim>\<open>json.loads\<close> accepts (\<^verbatim>\<open>NaN\<close>, \<^verbatim>\<open>Infinity\<close>, \<^verbatim>\<open>-Infinity\<close>).
\<close>

datatype pyfloat = Finite int int | NaN | Infinity bool

text \<open>
  What \<^verbatim>\<open>json.loads\<close> returns: \<^verbatim>\<open>None\<close>, \<^verbatim>\<open>bool\<close>, \<^verbatim>\<open>int\<close>, \<^verbatim>\<open>float\<close>, \<^verbatim>\<open>str\<close>, \<^verbatim>\<open>list\<close> or \<^verbatim>\<open>dict\<close>.
  A \<^verbatim>\<open>dict\<close> keeps its keys in insertion order, which the scan over \<^verbatim>\<open>parsed.values()\<close>
  depends on, so it is an association list in that order.
\<close>

datatype json =
    JNull
  | JBool bool
  | JInt int
  | JFloat pyfloat
  | JStr pystr
  | JArr "json list"
  | JObj "(pystr \<times> json) list"

text \<open>The exceptions this code can raise, as values.\<close>

datatype error =
    JSONDecodeError        \<comment> \<open>\<^verbatim>\<open>json.loads\<close> failed: the spec's \<open>MalformedResponse\<close>\<close>
  | AttributeError
  | TypeError
  | IndexError
  | RuntimeError pystr     \<comment> \<open>the spec's \<open>Unconfigured\<close>\<close>
  | APIError pystr         \<comment> \<open>raised by the Groq client: the spec's \<open>ServiceUnavailable\<close>\<close>

text \<open>\<^verbatim>\<open>k in d\<close>, \<^verbatim>\<open>d.get(k, default)\<close> and \<^verbatim>\<open>d.values()\<close> on a \<^verbatim>\<open>dict\<close>.\<close>

definition dict_has :: "(pystr \<times> json) list \<Rightarrow> pystr \<Rightarrow> bool" where
  "dict_has d k \<longleftrightarrow> map_of d k \<noteq> None"

definition dict_get :: "(pystr \<times> json) list \<Rightarrow> pystr \<Rightarrow> json \<Rightarrow> json" where
  "dict_get d k dflt = (case map_of d k of None \<Rightarrow> dflt | Some v \<Rightarrow> v)"

definition dict_values :: "(pystr \<times> json) list \<Rightarrow> json list" where
  "dict_values d = map snd d"

text \<open>\<^verbatim>\<open>isinstance(v, list)\<close> and \<^verbatim>\<open>len(v)\<close>.\<close>

fun is_list :: "json \<Rightarrow> bool" where
  "is_list (JArr xs) = True"
| "is_list v = False"

fun py_len :: "json \<Rightarrow> error + nat" where
  "py_len (JArr xs) = Inr (length xs)"
| "py_len (JStr s) = Inr (length s)"
| "py_len (JObj d) = Inr (length d)"
| "py_len v = Inl TypeError"

section \<open>claim\_auditor.py: the response normaliser\<close>

definition K_rows :: pystr where
  "K_rows = lit ''rows''"

definition K_eligibility :: pystr where
  "K_eligibility = lit ''eligibility''"

definition K_verdict :: pystr where
  "K_verdict = lit ''verdict''"

definition K_summary :: pystr where
  "K_summary = lit ''summary''"

definition K_next_steps :: pystr where
  "K_next_steps = lit ''next_steps''"

text \<open>
  \<^verbatim>\<open>"rows" in parsed\<close>: key membership on a \<^verbatim>\<open>dict\<close>, element membership on a \<^verbatim>\<open>list\<close>,
  substring test on a \<^verbatim>\<open>str\<close>, and a \<^verbatim>\<open>TypeError\<close> on anything else (not iterable).
\<close>

fun rows_in :: "json \<Rightarrow> error + bool" where
  "rows_in (JObj d) = Inr (dict_has d K_rows)"
| "rows_in (JArr xs) = Inr (JStr K_rows \<in> set xs)"
| "rows_in (JStr s) = Inr (contains s K_rows)"
| "rows_in v = Inl TypeError"

text \<open>\<^verbatim>\<open>next((v for v in parsed.values() if isinstance(v, list)), [])\<close>\<close>

fun first_list :: "json list \<Rightarrow> json" where
  "first_list [] = JArr []"
| "first_list (v # vs) = (if is_list v then v else first_list vs)"

text \<open>The default of \<^verbatim>\<open>parsed.get("eligibility", {...})\<close>.\<close>

definition fallback_eligibility :: json where
  "fallback_eligibility = JObj
     [(K_verdict, JStr (lit ''Unknown'')),
      (K_summary, JStr (lit ''Could not determine eligibility.'')),
      (K_next_steps, JArr [JStr (lit ''Please review manually.'')])]"

text \<open>
  Lines 262 to 270 of \<^verbatim>\<open>audit_claim\<close>, the block under \<^verbatim>\<open>if "rows" not in parsed:\<close>.
  A \<^verbatim>\<open>list\<close> or a \<^verbatim>\<open>str\<close> that does not hold \<^verbatim>\<open>"rows"\<close> reaches \<^verbatim>\<open>parsed.values()\<close>, which
  neither type has.
\<close>

definition normalise :: "json \<Rightarrow> error + json" where
  "normalise parsed =
     (case rows_in parsed of
        Inl e \<Rightarrow> Inl e
      | Inr True \<Rightarrow> Inr parsed
      | Inr False \<Rightarrow>
          (case parsed of
             JObj d \<Rightarrow>
               Inr (JObj [(K_rows, first_list (dict_values d)),
                          (K_eligibility, dict_get d K_eligibility fallback_eligibility)])
           | _ \<Rightarrow> Inl AttributeError))"

text \<open>
  Lines 272 to 276: the arguments of the \<^verbatim>\<open>logger.info\<close> call are evaluated before the
  call, left to right: \<^verbatim>\<open>len(parsed.get("rows", []))\<close>, then
  \<^verbatim>\<open>parsed.get("eligibility", {}).get("verdict", "?")\<close>. Only a \<^verbatim>\<open>dict\<close> has \<^verbatim>\<open>get\<close>.
\<close>

definition log_args :: "json \<Rightarrow> error + nat \<times> json" where
  "log_args parsed =
     (case parsed of
        JObj d \<Rightarrow>
          (case py_len (dict_get d K_rows (JArr [])) of
             Inl e \<Rightarrow> Inl e
           | Inr n \<Rightarrow>
               (case dict_get d K_eligibility (JObj []) of
                  JObj e \<Rightarrow> Inr (n, dict_get e K_verdict (JStr (lit ''?'')))
                | _ \<Rightarrow> Inl AttributeError))
      | _ \<Rightarrow> Inl AttributeError)"

text \<open>Lines 262 to 277: normalise, log, return.\<close>

definition post_parse :: "json \<Rightarrow> error + json" where
  "post_parse parsed =
     (case normalise parsed of
        Inl e \<Rightarrow> Inl e
      | Inr result \<Rightarrow> (case log_args result of Inl e \<Rightarrow> Inl e | Inr _ \<Rightarrow> Inr result))"

section \<open>claim\_auditor.py: code fences\<close>

text \<open>
  \<^verbatim>\<open>re.IGNORECASE\<close> on a \<^verbatim>\<open>str\<close> pattern: a letter of the pattern matches its two cases, and
  \<^verbatim>\<open>s\<close> also matches U+017F (long s).
\<close>

definition json_tag :: "pystr \<Rightarrow> bool" where
  "json_tag t \<longleftrightarrow>
     (case t of
        [a, b, c, d] \<Rightarrow>
          (a = 106 \<or> a = 74) \<and> (b = 115 \<or> b = 83 \<or> b = 383) \<and>
          (c = 111 \<or> c = 79) \<and> (d = 110 \<or> d = 78)
      | _ \<Rightarrow> False)"

definition FENCE :: pystr where
  "FENCE = [BACKTICK, BACKTICK, BACKTICK]"

text \<open>
  \<^verbatim>\<open>re.sub(r"^```(?:json)?\s*", "", raw, flags=re.IGNORECASE)\<close>: without \<^verbatim>\<open>re.MULTILINE\<close>
  the pattern can only match at position 0; the optional group and the whitespace are
  greedy and nothing follows them.
\<close>

definition strip_open_fence :: "pystr \<Rightarrow> pystr" where
  "strip_open_fence raw =
     (if startswith raw FENCE then
        (let r = drop 3 raw;
             r' = (if json_tag (take 4 r) then drop 4 r else r)
         in dropWhile is_space r')
      else raw)"

text \<open>
  \<^verbatim>\<open>re.sub(r"\s*```$", "", raw)\<close>. The pattern matches at a position when the whole run of
  whitespace there is followed by the fence and then the end of the string, or a newline
  that is the last character (\<^verbatim>\<open>$\<close> without \<^verbatim>\<open>re.MULTILINE\<close>). \<^verbatim>\<open>re.sub\<close> takes the leftmost
  match; what is left after it (nothing or that newline) cannot match again.
\<close>

definition close_fence_here :: "pystr \<Rightarrow> bool" where
  "close_fence_here s \<longleftrightarrow>
     (let r = dropWhile is_space s
      in startswith r FENCE \<and> (drop 3 r = [] \<or> drop 3 r = [NL]))"

fun strip_close_fence :: "pystr \<Rightarrow> pystr" where
  "strip_close_fence [] = []"
| "strip_close_fence (c # cs) =
     (if close_fence_here (c # cs) then drop 3 (dropWhile is_space (c # cs))
      else c # strip_close_fence cs)"

text \<open>Lines 255 to 257, applied to the content of the first choice.\<close>

definition strip_code_fences :: "pystr \<Rightarrow> pystr" where
  "strip_code_fences content = strip_close_fence (strip_open_fence (py_strip content))"

text \<open>
  Lines 255 to 277. \<^verbatim>\<open>json.loads\<close> belongs to the standard library: it is a parameter,
  \<open>None\<close> standing for its \<^verbatim>\<open>JSONDecodeError\<close>.
\<close>

definition audit_response :: "(pystr \<Rightarrow> json option) \<Rightarrow> pystr \<Rightarrow> error + json" where
  "audit_response loads content =
     (case loads (strip_code_fences content) of
        None \<Rightarrow> Inl JSONDecodeError
      | Some parsed \<Rightarrow> post_parse parsed)"

section \<open>textwrap.dedent\<close>

text \<open>\<^verbatim>\<open>sep.join(parts)\<close> and \<^verbatim>\<open>text.split("\n")\<close>.\<close>

fun py_join :: "pystr \<Rightarrow> pystr list \<Rightarrow> pystr" where
  "py_join sep [] = []"
| "py_join sep [x] = x"
| "py_join sep (x # y # ys) = x @ sep @ py_join sep (y # ys)"

definition join_nl :: "pystr list \<Rightarrow> pystr" where
  "join_nl ls = py_join [NL] ls"

fun split_lines :: "pystr \<Rightarrow> pystr list" where
  "split_lines [] = [[]]"
| "split_lines (c # cs) =
     (if c = NL then [] # split_lines cs
      else (case split_lines cs of [] \<Rightarrow> [[c]] | l # ls \<Rightarrow> (c # l) # ls))"

text \<open>
  \<^verbatim>\<open>textwrap.dedent\<close> of the standard library, in its regular-expression form (CPython up
  to 3.13). Lines are the pieces between newlines (\<^verbatim>\<open>re.MULTILINE\<close>).
  \<^item> \<^verbatim>\<open>_whitespace_only_re = '^[ \t]+$'\<close> is replaced by the empty string: a line made
    of spaces and tabs only becomes empty.
  \<^item> \<^verbatim>\<open>_leading_whitespace_re = '(^[ \t]*)(?:[^ \t\n])'\<close> collects the indentation of
    every line that has something after it.
  \<^item> The loop over these indentations keeps their longest common prefix in \<^verbatim>\<open>margin\<close>.
  \<^item> A non-empty margin is removed from the start of every line that starts with it.
\<close>

definition blank_char :: "nat \<Rightarrow> bool" where
  "blank_char c \<longleftrightarrow> c = 32 \<or> c = 9"

definition whitespace_only :: "pystr \<Rightarrow> bool" where
  "whitespace_only l \<longleftrightarrow> l \<noteq> [] \<and> list_all blank_char l"

definition blank_ws_lines :: "pystr \<Rightarrow> pystr" where
  "blank_ws_lines text =
     join_nl (map (\<lambda>l. if whitespace_only l then [] else l) (split_lines text))"

definition indents :: "pystr \<Rightarrow> pystr list" where
  "indents text =
     map (takeWhile blank_char) (filter (\<lambda>l. dropWhile blank_char l \<noteq> []) (split_lines text))"

fun cut_at_mismatch :: "pystr \<Rightarrow> pystr \<Rightarrow> pystr" where
  "cut_at_mismatch [] ys = []"
| "cut_at_mismatch (x # xs) [] = x # xs"
| "cut_at_mismatch (x # xs) (y # ys) = (if x \<noteq> y then [] else x # cut_at_mismatch xs ys)"

fun margin_step :: "pystr option \<Rightarrow> pystr \<Rightarrow> pystr option" where
  "margin_step None indent = Some indent"
| "margin_step (Some margin) indent =
     (if startswith indent margin then Some margin
      else if startswith margin indent then Some indent
      else Some (cut_at_mismatch margin indent))"

definition remove_margin :: "pystr \<Rightarrow> pystr \<Rightarrow> pystr" where
  "remove_margin margin text =
     join_nl (map (\<lambda>l. if startswith l margin then drop (length margin) l else l)
                  (split_lines text))"

definition dedent :: "pystr \<Rightarrow> pystr" where
  "dedent text0 =
     (let text = blank_ws_lines text0
      in case foldl margin_step None (indents text) of
           None \<Rightarrow> text
         | Some [] \<Rightarrow> text
         | Some margin \<Rightarrow> remove_margin margin text)"

section \<open>claim\_auditor.py: the prompt\<close>

text \<open>The lines of the \<^verbatim>\<open>FEW_SHOT_EXAMPLES\<close> literal between its two \<^verbatim>\<open>examples\<close> tags.\<close>

definition EXAMPLE_LINES :: "pystr list" where
  \<open>EXAMPLE_LINES =
    [[],
     lit ''  <example id="1">'',
     lit ''    <scenario>Room rent sub-limit violation</scenario>'',
     lit ''    <bill_snippet>Room Charges: ICU stay '' @ [8211] @ lit '' 5 days '' @ [215] @ lit '' '' @ [8377] @ lit ''8,000/day = '' @ [8377] @ lit ''40,000</bill_snippet>'',
     lit ''    <policy_snippet>ICU room rent capped at '' @ [8377] @ lit ''10,000/day</policy_snippet>'',
     lit ''    <expected_row>'',
     lit ''      {'',
     lit ''        "parameter": "ICU Room Rent",'',
     lit ''        "bill_detail": "'' @ [8377] @ lit ''8,000/day '' @ [215] @ lit '' 5 days = '' @ [8377] @ lit ''40,000",'',
     lit ''        "policy_clause": "ICU sub-limit: '' @ [8377] @ lit ''10,000/day",'',
     lit ''        "status": "'' @ [9989] @ lit ''",'',
     lit ''        "lag_reason": "Daily ICU rate is within the '' @ [8377] @ lit ''10,000/day sub-limit. Fully admissible.",'',
     lit ''        "risk_score": 5,'',
     lit ''        "risk_label": "Low"'',
     lit ''      }'',
     lit ''    </expected_row>'',
     lit ''  </example>'',
     [],
     lit ''  <example id="2">'',
     lit ''    <scenario>Waiting period not satisfied '' @ [8211] @ lit '' knee replacement</scenario>'',
     lit ''    <bill_snippet>Knee Replacement Surgery '' @ [8211] @ lit '' Date: 14-Mar-2024. Policy Inception: 01-Feb-2024</bill_snippet>'',
     lit ''    <policy_snippet>Joint replacement: 24-month waiting period</policy_snippet>'',
     lit ''    <expected_row>'',
     lit ''      {'',
     lit ''        "parameter": "Knee Replacement Surgery",'',
     lit ''        "bill_detail": "Procedure on 14-Mar-2024 (policy age '' @ [8776] @ lit '' 1.5 months)",'',
     lit ''        "policy_clause": "Waiting Period '' @ [8211] @ lit '' Joint replacement: 24 months",'',
     lit ''        "status": "'' @ [10060] @ lit ''",'',
     lit ''        "lag_reason": "Waiting period not met. Remaining: '' @ [8776] @ lit ''22.5 months. Claim not admissible.",'',
     lit ''        "risk_score": 95,'',
     lit ''        "risk_label": "Critical"'',
     lit ''      }'',
     lit ''    </expected_row>'',
     lit ''  </example>'',
     [],
     lit ''  <example id="3">'',
     lit ''    <scenario>Pre-existing diabetes complication</scenario>'',
     lit ''    <bill_snippet>Diabetic Nephropathy treatment '' @ [8211] @ lit '' '' @ [8377] @ lit ''80,000</bill_snippet>'',
     lit ''    <policy_snippet>PED covered after 2-year waiting period</policy_snippet>'',
     lit ''    <expected_row>'',
     lit ''      {'',
     lit ''        "parameter": "Diabetic Nephropathy",'',
     lit ''        "bill_detail": "'' @ [8377] @ lit ''80,000 '' @ [8211] @ lit '' complication of pre-existing diabetes",'',
     lit ''        "policy_clause": "Pre-Existing Disease (PED) '' @ [8211] @ lit '' 2-year waiting period",'',
     lit ''        "status": "'' @ [9888, 65039] @ lit ''",'',
     lit ''        "lag_reason": "Diabetes is a known PED. Covered only if policy is >2 years old. 10% co-pay applies.",'',
     lit ''        "risk_score": 60,'',
     lit ''        "risk_label": "Medium"'',
     lit ''      }'',
     lit ''    </expected_row>'',
     lit ''  </example>'',
     [],
     lit ''  <example id="4">'',
     lit ''    <scenario>Excluded treatment '' @ [8211] @ lit '' cosmetic</scenario>'',
     lit ''    <bill_snippet>Rhinoplasty (nose reshaping) '' @ [8211] @ lit '' '' @ [8377] @ lit ''1,20,000</bill_snippet>'',
     lit ''    <policy_snippet>Cosmetic surgery explicitly excluded</policy_snippet>'',
     lit ''    <expected_row>'',
     lit ''      {'',
     lit ''        "parameter": "Rhinoplasty",'',
     lit ''        "bill_detail": "'' @ [8377] @ lit ''1,20,000 '' @ [8211] @ lit '' elective cosmetic procedure",'',
     lit ''        "policy_clause": "Exclusion '' @ [8211] @ lit '' Cosmetic/aesthetic treatments",'',
     lit ''        "status": "'' @ [10060] @ lit ''",'',
     lit ''        "lag_reason": "Elective cosmetic surgery is a hard exclusion. Claim fully rejected.",'',
     lit ''        "risk_score": 100,'',
     lit ''        "risk_label": "Critical"'',
     lit ''      }'',
     lit ''    </expected_row>'',
     lit ''  </example>'',
     [],
     lit ''  <example id="5">'',
     lit ''    <scenario>Co-pay '' @ [8211] @ lit '' senior citizen non-network hospital</scenario>'',
     lit ''    <bill_snippet>Patient age 63. Total bill '' @ [8377] @ lit ''2,00,000. Non-network hospital.</bill_snippet>'',
     lit ''    <policy_snippet>Senior citizen co-pay 20%; Non-network co-pay 20% (max combined 30%)</policy_snippet>'',
     lit ''    <expected_row>'',
     lit ''      {'',
     lit ''        "parameter": "Senior + Non-network Co-pay",'',
     lit ''        "bill_detail": "'' @ [8377] @ lit ''2,00,000 '' @ [8211] @ lit '' age 63, non-network hospital",'',
     lit ''        "policy_clause": "Co-pay '' @ [8211] @ lit '' Senior citizen 20% + Non-network 20% (capped at 30%)",'',
     lit ''        "status": "'' @ [9888, 65039] @ lit ''",'',
     lit ''        "lag_reason": "Combined co-pay capped at 30%. Patient liability: '' @ [8377] @ lit ''60,000. Admissible: '' @ [8377] @ lit ''1,40,000.",'',
     lit ''        "risk_score": 40,'',
     lit ''        "risk_label": "Medium"'',
     lit ''      }'',
     lit ''    </expected_row>'',
     lit ''  </example>'',
     []]\<close>

definition FEW_SHOT_EXAMPLES :: pystr where
  "FEW_SHOT_EXAMPLES =
     dedent (join_nl ([[], lit ''<examples>''] @ EXAMPLE_LINES @ [lit ''</examples>'', []]))"

definition SYSTEM_PROMPT :: pystr where
  \<open>SYSTEM_PROMPT = py_strip (dedent (join_nl
    [[],
     lit ''You are MediAudit, a senior insurance underwriting and claim validation expert'',
     lit ''with 20+ years of experience across Indian health insurance policies.'',
     [],
     lit ''You will receive:'',
     lit ''  1. <policy_baseline>  '' @ [8211] @ lit '' A generalised insurance policy with standard rules.'',
     lit ''  2. <uploaded_policy>  '' @ [8211] @ lit '' An insurer-specific policy (may be empty; use baseline if so).'',
     lit ''  3. <bill>             '' @ [8211] @ lit '' Extracted medical bill text.'',
     lit ''  4. <examples>         '' @ [8211] @ lit '' Few-shot labelled examples showing exact output format.'',
     [],
     lit ''Your tasks:'',
     lit ''  A. For EACH line item in the bill, produce one JSON row with these exact keys:'',
     lit ''       "parameter"    '' @ [8211] @ lit '' treatment / charge name'',
     lit ''       "bill_detail"  '' @ [8211] @ lit '' amount + description from bill'',
     lit ''       "policy_clause"'' @ [8211] @ lit '' matching policy rule (baseline or uploaded)'',
     lit ''       "status"       '' @ [8211] @ lit '' exactly one of: '' @ [9989] @ lit ''  '' @ [9888, 65039] @ lit ''  '' @ [10060],
     lit ''       "lag_reason"   '' @ [8211] @ lit '' 1'' @ [8211] @ lit ''2 sentence explanation; quantify monetary gaps'',
     lit ''       "risk_score"   '' @ [8211] @ lit '' integer 0'' @ [8211] @ lit ''100 (0=no risk, 100=critical rejection)'',
     lit ''       "risk_label"   '' @ [8211] @ lit '' one of: "Low" | "Medium" | "High" | "Critical"'',
     [],
     lit ''  B. After the rows, produce an "eligibility" object:'',
     lit ''       "verdict"      '' @ [8211] @ lit '' one of: "Eligible" | "Partially Eligible" | "Not Eligible"'',
     lit ''       "summary"      '' @ [8211] @ lit '' 2'' @ [8211] @ lit ''3 sentence plain-English explanation for the patient'',
     lit ''       "next_steps"   '' @ [8211] @ lit '' list of 3'' @ [8211] @ lit ''5 concrete action strings the patient should take'',
     [],
     lit ''  C. Risk scoring guide:'',
     lit ''       0'' @ [8211] @ lit ''20   '' @ [8594] @ lit '' Low      (no issue or minor informational flag)'',
     lit ''       21'' @ [8211] @ lit ''50  '' @ [8594] @ lit '' Medium   (partial coverage, co-pay, sub-limit breach)'',
     lit ''       51'' @ [8211] @ lit ''80  '' @ [8594] @ lit '' High     (waiting period issue, PED concern)'',
     lit ''       81'' @ [8211] @ lit ''100 '' @ [8594] @ lit '' Critical (hard exclusion, fraud risk, full rejection)'',
     [],
     lit ''  D. Blend the uploaded policy with the baseline:'',
     lit ''       - If uploaded policy has a stricter rule '' @ [8594] @ lit '' use uploaded'',
     lit ''       - If baseline has a stricter rule and uploaded is silent '' @ [8594] @ lit '' use baseline'',
     lit ''       - Use LLM reasoning for anything neither document covers explicitly'',
     [],
     lit ''Output ONLY a valid JSON object with two keys: "rows" and "eligibility".'',
     lit ''No markdown fences. No commentary outside the JSON.'',
     []]))\<close>

text \<open>
  \<^verbatim>\<open>_build_user_message\<close>: the f-string, one list element per line of the literal, then
  \<^verbatim>\<open>textwrap.dedent\<close> and \<^verbatim>\<open>strip\<close>. An empty \<^verbatim>\<open>str\<close> is falsy.
\<close>

definition NO_UPLOAD :: pystr where
  "NO_UPLOAD = lit ''No insurer-specific policy uploaded. Use baseline only.''"

definition user_template :: "pystr \<Rightarrow> pystr \<Rightarrow> pystr \<Rightarrow> pystr" where
  "user_template bill_text policy_baseline_text uploaded_policy_text = join_nl
     [[],
      lit ''    '' @ FEW_SHOT_EXAMPLES,
      [],
      lit ''    <policy_baseline>'',
      lit ''    '' @ policy_baseline_text,
      lit ''    </policy_baseline>'',
      [],
      lit ''    <uploaded_policy>'',
      lit ''    '' @ (if py_strip uploaded_policy_text \<noteq> [] then uploaded_policy_text
                      else NO_UPLOAD),
      lit ''    </uploaded_policy>'',
      [],
      lit ''    <bill>'',
      lit ''    '' @ bill_text,
      lit ''    </bill>'',
      [],
      lit ''    Now perform the full audit and return the JSON object.'',
      lit ''    '']"

definition build_user_message :: "pystr \<Rightarrow> pystr \<Rightarrow> pystr \<Rightarrow> pystr" where
  "build_user_message bill_text policy_baseline_text uploaded_policy_text =
     py_strip (dedent (user_template bill_text policy_baseline_text uploaded_policy_text))"

section \<open>claim\_auditor.py: the client and the audit call\<close>

text \<open>
  The module keeps the client in the global \<^verbatim>\<open>_client\<close>, \<^verbatim>\<open>None\<close> until
  \<^verbatim>\<open>configure_groq\<close> runs. The state also records every request handed to
  \<^verbatim>\<open>_client.chat.completions.create\<close>, in order: these are the outbound calls.
\<close>

record request =
  model :: pystr
  temperature :: pyfloat
  response_format :: pystr
  messages :: "(pystr \<times> pystr) list"

record world =
  client :: "pystr option"
  sent :: "request list"

definition initial_world :: world where
  "initial_world = \<lparr>client = None, sent = []\<rparr>"

definition configure_groq :: "world \<Rightarrow> pystr \<Rightarrow> world" where
  "configure_groq w api_key = w\<lparr>client := Some api_key\<rparr>"

definition NOT_INITIALISED :: pystr where
  "NOT_INITIALISED = lit ''Groq client not initialised. Call configure_groq(api_key) first.''"

text \<open>
  The Groq service is a parameter: given the key of the client and the request it raises
  or answers with the \<^verbatim>\<open>message.content\<close> of each choice (\<^verbatim>\<open>None\<close> is a legal content).
  \<^verbatim>\<open>response.choices[0]\<close> raises \<^verbatim>\<open>IndexError\<close> on no choice, \<^verbatim>\<open>None.strip()\<close> raises
  \<^verbatim>\<open>AttributeError\<close>.
\<close>

definition audit_claim ::
  "(pystr \<Rightarrow> json option) \<Rightarrow> (pystr \<Rightarrow> request \<Rightarrow> error + pystr option list) \<Rightarrow>
   world \<Rightarrow> pystr \<Rightarrow> pystr \<Rightarrow> pystr \<Rightarrow> pystr \<Rightarrow> pyfloat \<Rightarrow> (error + json) \<times> world" where
  "audit_claim loads service w bill_text policy_baseline_text uploaded_policy_text
       model_name temp =
     (case client w of
        None \<Rightarrow> (Inl (RuntimeError NOT_INITIALISED), w)
      | Some key \<Rightarrow>
          (let user_message =
                 build_user_message bill_text policy_baseline_text uploaded_policy_text;
               req = \<lparr>model = model_name, temperature = temp,
                      response_format = lit ''json_object'',
                      messages = [(lit ''system'', SYSTEM_PROMPT), (lit ''user'', user_message)]\<rparr>;
               w' = w\<lparr>sent := sent w @ [req]\<rparr>
           in case service key req of
                Inl e \<Rightarrow> (Inl e, w')
              | Inr [] \<Rightarrow> (Inl IndexError, w')
              | Inr (None # _) \<Rightarrow> (Inl AttributeError, w')
              | Inr (Some content # _) \<Rightarrow> (audit_response loads content, w')))"

section \<open>policy\_engine.py\<close>

text \<open>
  \<^verbatim>\<open>GENERALISED_POLICY\<close> is a \<^verbatim>\<open>dict\<close> literal. The dictionaries that the code reads by
  fixed keys only are records; \<^verbatim>\<open>sub_limits\<close>, \<^verbatim>\<open>copay\<close> and \<^verbatim>\<open>specific_illness_months\<close>,
  whose entries the claims count, stay association lists in the order of the literal.
  The two BMI bounds are the only floats; each is written with one decimal digit, which
  \<^verbatim>\<open>str\<close> of such a float prints back, so they are kept in tenths. The keys \<^verbatim>\<open>min\<close>, \<^verbatim>\<open>max\<close>,
  \<^verbatim>\<open>notes\<close> and \<^verbatim>\<open>definition\<close> carry the name of their dictionary.
\<close>

record bmi_bounds =
  bmi_min :: nat
  bmi_max :: nat

record eligibility_rules =
  min_age_years :: int
  max_age_years :: int
  bmi_range :: bmi_bounds
  eligibility_notes :: pystr

record waiting_rules =
  initial_waiting_days :: int
  pre_existing_disease_years :: int
  specific_illness_months :: "(pystr \<times> int) list"
  maternity_months :: int
  waiting_notes :: pystr

record ped_rules =
  ped_definition :: pystr
  common_peds :: "pystr list"
  waiting_period_years :: int
  ped_notes :: pystr

record network_rules =
  cashless_at_network_hospitals :: bool
  reimbursement_timeline_days :: int
  pre_auth_required_above_inr :: int
  post_hospitalisation_days :: int
  pre_hospitalisation_days :: int

record policy =
  policy_name :: pystr
  effective_date :: pystr
  eligibility :: eligibility_rules
  waiting_periods :: waiting_rules
  sub_limits :: "(pystr \<times> int) list"
  copay :: "(pystr \<times> int) list"
  exclusions :: "pystr list"
  pre_existing_conditions :: ped_rules
  network :: network_rules
  deductible_inr :: int
  sum_insured_options_inr :: "int list"
  default_sum_insured_inr :: int

definition GENERALISED_POLICY :: policy where
  "GENERALISED_POLICY =
    \<lparr>policy_name = lit ''MediAudit Generalised Health Insurance Baseline v1.0'',
     effective_date = lit ''2024-01-01'',
     eligibility =
       \<lparr>min_age_years = 18,
        max_age_years = 65,
        bmi_range = \<lparr>bmi_min = 150, bmi_max = 400\<rparr>,
        eligibility_notes =
          lit ''Applicants outside the age or BMI range require specialist underwriting approval and are not auto-approved.''\<rparr>,
     waiting_periods =
       \<lparr>initial_waiting_days = 30,
        pre_existing_disease_years = 2,
        specific_illness_months =
          [(lit ''cataract'', 24),
           (lit ''hernia'', 24),
           (lit ''knee_replacement'', 24),
           (lit ''hip_replacement'', 24),
           (lit ''varicose_veins'', 12),
           (lit ''sinusitis'', 12),
           (lit ''piles_fistula'', 12),
           (lit ''kidney_stones'', 12),
           (lit ''hysterectomy'', 24),
           (lit ''joint_replacement'', 24)],
        maternity_months = 9,
        waiting_notes =
          lit ''Waiting periods are counted from the first policy inception date, not renewal dates.''\<rparr>,
     sub_limits =
       [(lit ''room_rent_per_day_inr'', 5000),
        (lit ''icu_rent_per_day_inr'', 10000),
        (lit ''ambulance_per_event_inr'', 2000),
        (lit ''cataract_per_eye_inr'', 40000),
        (lit ''dental_treatment_inr'', 0),
        (lit ''cosmetic_surgery_inr'', 0),
        (lit ''ayush_treatment_inr'', 20000),
        (lit ''mental_health_inr'', 50000),
        (lit ''organ_donor_inr'', 100000),
        (lit ''domiciliary_treatment_inr'', 20000)],
     copay =
       [(lit ''default_copay_percent'', 0),
        (lit ''senior_citizen_copay_percent'', 20),
        (lit ''non_network_hospital_copay_percent'', 20),
        (lit ''pre_existing_copay_percent'', 10)],
     exclusions =
       [lit ''Cosmetic or aesthetic treatments'',
        lit ''Self-inflicted injuries'',
        lit ''War, terrorism, or nuclear hazard injuries'',
        lit ''Dental treatment (except accidental)'',
        lit ''Obesity treatment or weight-loss surgery'',
        lit ''Experimental or unproven treatments'',
        lit ''Substance abuse or alcoholism treatment'',
        lit ''Fertility treatments and IVF'',
        lit ''Spectacles, contact lenses, hearing aids'',
        lit ''Non-allopathic treatment beyond AYUSH sub-limit'',
        lit ''Refractive error correction (LASIK) below -7.5 dioptre'',
        lit ''Pregnancy termination (unless medically necessary)'',
        lit ''Congenital external diseases (if detected at birth)'',
        lit ''HIV/AIDS and sexually transmitted diseases''],
     pre_existing_conditions =
       \<lparr>ped_definition =
          lit ''Any condition, ailment, or injury or related condition(s) for which the insured had signs/symptoms, or was diagnosed, or received medical advice / treatment within 48 months prior to policy inception.'',
        common_peds =
          [lit ''Diabetes Mellitus (Type 1 & 2)'',
           lit ''Hypertension / High Blood Pressure'',
           lit ''Asthma'',
           lit ''Chronic Obstructive Pulmonary Disease (COPD)'',
           lit ''Thyroid disorders'',
           lit ''Cardiac conditions (IHD, heart attack history)'',
           lit ''Chronic kidney disease'',
           lit ''Cancer (within 5 years of remission)'',
           lit ''Epilepsy'',
           lit ''Arthritis (Rheumatoid)''],
        waiting_period_years = 2,
        ped_notes =
          lit ''PEDs are covered after the waiting period with standard benefits. Undisclosed PEDs may result in claim repudiation.''\<rparr>,
     network =
       \<lparr>cashless_at_network_hospitals = True,
        reimbursement_timeline_days = 15,
        pre_auth_required_above_inr = 25000,
        post_hospitalisation_days = 60,
        pre_hospitalisation_days = 30\<rparr>,
     deductible_inr = 0,
     sum_insured_options_inr = [200000, 300000, 500000, 1000000, 2500000],
     default_sum_insured_inr = 500000\<rparr>"

text \<open>
  \<^verbatim>\<open>str(n)\<close> and the format \<^verbatim>\<open>{n:,}\<close> of an \<^verbatim>\<open>int\<close>, \<^verbatim>\<open>str\<close> of a float kept in tenths, and
  \<^verbatim>\<open>k.replace('_', ' ')\<close>.
\<close>

fun nat_str :: "nat \<Rightarrow> pystr" where
  "nat_str n = (if n < 10 then [48 + n] else nat_str (n div 10) @ [48 + n mod 10])"

declare nat_str.simps [simp del]

definition int_str :: "int \<Rightarrow> pystr" where
  "int_str i = (if i < 0 then 45 # nat_str (nat (- i)) else nat_str (nat i))"

definition three_digits :: "nat \<Rightarrow> pystr" where
  "three_digits n = [48 + n div 100, 48 + n div 10 mod 10, 48 + n mod 10]"

fun nat_commas :: "nat \<Rightarrow> pystr" where
  "nat_commas n =
     (if n < 1000 then nat_str n
      else nat_commas (n div 1000) @ [44] @ three_digits (n mod 1000))"

declare nat_commas.simps [simp del]

definition int_commas :: "int \<Rightarrow> pystr" where
  "int_commas i = (if i < 0 then 45 # nat_commas (nat (- i)) else nat_commas (nat i))"

definition tenths_str :: "nat \<Rightarrow> pystr" where
  "tenths_str t = nat_str (t div 10) @ [46] @ nat_str (t mod 10)"

definition underscores_to_spaces :: "pystr \<Rightarrow> pystr" where
  "underscores_to_spaces k = map (\<lambda>c. if c = 95 then 32 else c) k"

definition RUPEE :: nat where
  "RUPEE = 8377"

text \<open>
  \<^verbatim>\<open>get_policy_as_prompt_text\<close>, with the module constant passed as \<open>p\<close>. A subscript
  \<^verbatim>\<open>s['key']\<close> on a missing key raises \<^verbatim>\<open>KeyError\<close>: the result is then \<open>None\<close>. The f-string
  is given one list element per line of the literal; the element for the exclusions
  holds the lines joined by \<^verbatim>\<open>chr(10)\<close>.
\<close>

definition get_policy_as_prompt_text :: "policy \<Rightarrow> pystr option" where
  "get_policy_as_prompt_text p =
     (let e = eligibility p; w = waiting_periods p; s = sub_limits p; c = copay p;
          illness_list =
            py_join (lit ''; '')
              (map (\<lambda>(k, v). underscores_to_spaces k @ lit '' ('' @ int_str v @ lit ''m)'')
                   (specific_illness_months w))
      in do {
        room \<leftarrow> map_of s (lit ''room_rent_per_day_inr'');
        icu \<leftarrow> map_of s (lit ''icu_rent_per_day_inr'');
        ambulance \<leftarrow> map_of s (lit ''ambulance_per_event_inr'');
        cataract \<leftarrow> map_of s (lit ''cataract_per_eye_inr'');
        mental \<leftarrow> map_of s (lit ''mental_health_inr'');
        ayush \<leftarrow> map_of s (lit ''ayush_treatment_inr'');
        standard \<leftarrow> map_of c (lit ''default_copay_percent'');
        senior \<leftarrow> map_of c (lit ''senior_citizen_copay_percent'');
        non_network \<leftarrow> map_of c (lit ''non_network_hospital_copay_percent'');
        ped \<leftarrow> map_of c (lit ''pre_existing_copay_percent'');
        Some (py_strip (join_nl
          [[],
           lit ''POLICY: '' @ policy_name p,
           [],
           lit ''ELIGIBILITY:'',
           lit ''- Age: '' @ int_str (min_age_years e) @ [8211] @ int_str (max_age_years e) @
             lit '' years'',
           lit ''- BMI: '' @ tenths_str (bmi_min (bmi_range e)) @ [8211] @
             tenths_str (bmi_max (bmi_range e)),
           [],
           lit ''WAITING PERIODS:'',
           lit ''- Initial waiting: '' @ int_str (initial_waiting_days w) @ lit '' days (no claims)'',
           lit ''- Pre-existing diseases (PED): '' @ int_str (pre_existing_disease_years w) @
             lit '' years'',
           lit ''- Maternity: '' @ int_str (maternity_months w) @ lit '' months'',
           lit ''- Specific illnesses: '' @ illness_list,
           [],
           lit ''SUB-LIMITS (INR):'',
           lit ''- Room rent: '' @ [RUPEE] @ int_commas room @ lit ''/day'',
           lit ''- ICU: '' @ [RUPEE] @ int_commas icu @ lit ''/day'',
           lit ''- Ambulance: '' @ [RUPEE] @ int_commas ambulance @ lit ''/event'',
           lit ''- Cataract: '' @ [RUPEE] @ int_commas cataract @ lit ''/eye'',
           lit ''- Mental health: '' @ [RUPEE] @ int_commas mental,
           lit ''- AYUSH: '' @ [RUPEE] @ int_commas ayush,
           lit ''- Dental: EXCLUDED'',
           lit ''- Cosmetic: EXCLUDED'',
           [],
           lit ''CO-PAY:'',
           lit ''- Standard: '' @ int_str standard @ lit ''%'',
           lit ''- Senior citizen (>60): '' @ int_str senior @ lit ''%'',
           lit ''- Non-network hospital: '' @ int_str non_network @ lit ''%'',
           lit ''- PED claims: '' @ int_str ped @ lit ''%'',
           [],
           lit ''PRE-EXISTING CONDITIONS (PED) '' @ [8212] @ lit '' covered after 2 years:'',
           py_join (lit '', '') (common_peds (pre_existing_conditions p)),
           [],
           lit ''EXCLUSIONS:'',
           py_join [NL] (map (\<lambda>x. lit ''- '' @ x) (exclusions p)),
           [],
           lit ''SUM INSURED OPTIONS: '' @
             py_join (lit '', '') (map (\<lambda>x. [RUPEE] @ int_commas x) (sum_insured_options_inr p)),
           lit ''DEFAULT SUM INSURED: '' @ [RUPEE] @ int_commas (default_sum_insured_inr p),
           []]))
      })"

section \<open>The result shape of the specification\<close>

text \<open>
  The specification's \<open>AuditResult\<close>: a \<^verbatim>\<open>rows\<close> field that holds a sequence and an
  \<^verbatim>\<open>eligibility\<close> field that holds an object. This predicate follows the specification's
  data model; no function of the source computes it.
\<close>

definition audit_result_shape :: "json \<Rightarrow> bool" where
  "audit_result_shape r \<longleftrightarrow>
     (case r of
        JObj d \<Rightarrow>
          (case map_of d K_rows of Some (JArr rows) \<Rightarrow> True | _ \<Rightarrow> False) \<and>
          (case map_of d K_eligibility of Some (JObj e) \<Rightarrow> True | _ \<Rightarrow> False)
      | _ \<Rightarrow> False)"

section \<open>Properties of the response normaliser\<close>

lemma lit_simps: "lit [] = []" "lit (c # cs) = of_char c # lit cs"
  by (simp_all add: lit_def)

lemma key_neq: "K_rows \<noteq> K_eligibility" "K_eligibility \<noteq> K_rows"
  by (simp_all add: K_rows_def K_eligibility_def lit_def)

lemma first_list_single: "filter is_list vs = [v] \<Longrightarrow> first_list vs = v"
  by (induction vs) (auto split: if_splits)

lemma first_list_none: "filter is_list vs = [] \<Longrightarrow> first_list vs = JArr []"
  by (induction vs) (auto split: if_splits)

lemma first_list_is_list: "is_list (first_list vs)"
  by (induction vs) auto

lemma is_list_len: "is_list v \<Longrightarrow> \<exists>n. py_len v = Inr n"
  by (cases v) auto

lemma normalise_has_rows: "map_of d K_rows = Some v \<Longrightarrow> normalise (JObj d) = Inr (JObj d)"
  by (simp add: normalise_def dict_has_def)

lemma normalise_no_rows:
  "map_of d K_rows = None \<Longrightarrow>
   normalise (JObj d) =
     Inr (JObj [(K_rows, first_list (dict_values d)),
                (K_eligibility, dict_get d K_eligibility fallback_eligibility)])"
  by (simp add: normalise_def dict_has_def)

text \<open>
  When the block has built its two-key object, the log line goes through as soon as the
  eligibility value is an object; the function then returns what the block built.
\<close>

lemma post_parse_no_rows:
  assumes "map_of d K_rows = None"
    and "dict_get d K_eligibility fallback_eligibility = JObj e"
  shows "post_parse (JObj d) =
     Inr (JObj [(K_rows, first_list (dict_values d)), (K_eligibility, JObj e)])"
proof -
  obtain n where "py_len (first_list (dict_values d)) = Inr n"
    using is_list_len [OF first_list_is_list] by blast
  with assms show ?thesis
    by (simp add: post_parse_def normalise_no_rows log_args_def dict_get_def key_neq)
qed

text \<open>
  C1. Claimed: whenever the response parses, the result has a \<^verbatim>\<open>rows\<close> sequence and exactly
  one \<^verbatim>\<open>eligibility\<close> object, also when the parsed object has \<^verbatim>\<open>rows\<close> but no
  \<^verbatim>\<open>eligibility\<close>. The code returns such an object as it is: for \<^verbatim>\<open>{"rows": []}\<close> the
  function returns \<^verbatim>\<open>{"rows": []}\<close>, which has no \<^verbatim>\<open>eligibility\<close> field.
\<close>

theorem rows_without_eligibility_returned_as_is:
  "post_parse (JObj [(K_rows, JArr [])]) = Inr (JObj [(K_rows, JArr [])]) \<and>
   \<not> audit_result_shape (JObj [(K_rows, JArr [])])"
  by (simp add: post_parse_def normalise_def dict_has_def log_args_def dict_get_def
      audit_result_shape_def key_neq)

text \<open>
  C3. Claimed: the only failure is the JSON parse failure, and a response that parses as a
  top-level sequence is repaired. In the code every parsed list ends in \<^verbatim>\<open>AttributeError\<close>:
  a list has neither \<^verbatim>\<open>values\<close> nor \<^verbatim>\<open>get\<close>.
\<close>

theorem top_level_list_raises_attribute_error:
  "post_parse (JArr xs) = Inl AttributeError"
  by (cases "JStr K_rows \<in> set xs") (simp_all add: post_parse_def normalise_def log_args_def)

text \<open>
  C4. A response that parses as an object with a \<^verbatim>\<open>rows\<close> list and an \<^verbatim>\<open>eligibility\<close> object
  is returned unchanged: the normalising block leaves every object with a \<^verbatim>\<open>rows\<close> key as it
  is, and the function returns that same object.
\<close>

theorem well_formed_response_passes_through:
  assumes "loads (strip_code_fences content) = Some (JObj d)"
    and "map_of d K_rows = Some (JArr rows)"
    and "map_of d K_eligibility = Some (JObj elig)"
  shows "normalise (JObj d) = Inr (JObj d) \<and> audit_response loads content = Inr (JObj d)"
  using assms
  by (simp add: audit_response_def post_parse_def normalise_has_rows log_args_def dict_get_def)

lemma strip_code_fences_plain:
  \<open>strip_code_fences (lit ''{"rows": [], "eligibility": {}}'') =
     lit ''{"rows": [], "eligibility": {}}''\<close>
  by (simp add: strip_code_fences_def py_strip_def strip_open_fence_def FENCE_def BACKTICK_def
      NL_def lit_simps is_space_def close_fence_here_def)

theorem well_formed_response_passes_through_witness:
  \<open>audit_response
     (\<lambda>s. if s = lit ''{"rows": [], "eligibility": {}}''
          then Some (JObj [(K_rows, JArr []), (K_eligibility, JObj [])]) else None)
     (lit ''{"rows": [], "eligibility": {}}'') =
   Inr (JObj [(K_rows, JArr []), (K_eligibility, JObj [])])\<close>
  using well_formed_response_passes_through
    [of \<open>\<lambda>s. if s = lit ''{"rows": [], "eligibility": {}}''
          then Some (JObj [(K_rows, JArr []), (K_eligibility, JObj [])]) else None\<close>
        \<open>lit ''{"rows": [], "eligibility": {}}''\<close>
        "[(K_rows, JArr []), (K_eligibility, JObj [])]" "[]" "[]"]
  by (simp add: strip_code_fences_plain key_neq)

text \<open>
  What the repair does on an object without a \<^verbatim>\<open>rows\<close> key. The block (lines 262 to 270)
  takes the first list-valued field, or the empty list, as \<^verbatim>\<open>rows\<close> and the \<^verbatim>\<open>eligibility\<close>
  field, or the fallback, as \<^verbatim>\<open>eligibility\<close>. The function returns this object when the
  eligibility value in it is an object; without an \<^verbatim>\<open>eligibility\<close> field that is the
  fallback: verdict \<^verbatim>\<open>Unknown\<close>, a generic summary and the one next step
  \<^verbatim>\<open>Please review manually.\<close>
\<close>

lemma fallback_eligibility_content:
  "fallback_eligibility =
     JObj [(lit ''verdict'', JStr (lit ''Unknown'')),
           (lit ''summary'', JStr (lit ''Could not determine eligibility.'')),
           (lit ''next_steps'', JArr [JStr (lit ''Please review manually.'')])]"
  by (simp add: fallback_eligibility_def K_verdict_def K_summary_def K_next_steps_def)

lemma repair_single_list_field:
  assumes "map_of d K_rows = None"
    and "filter is_list (dict_values d) = [JArr xs]"
  shows "normalise (JObj d) =
           Inr (JObj [(K_rows, JArr xs),
                      (K_eligibility, dict_get d K_eligibility fallback_eligibility)]) \<and>
         (\<forall>e. dict_get d K_eligibility fallback_eligibility = JObj e \<longrightarrow>
            post_parse (JObj d) = Inr (JObj [(K_rows, JArr xs), (K_eligibility, JObj e)])) \<and>
         (map_of d K_eligibility = None \<longrightarrow>
            post_parse (JObj d) =
              Inr (JObj [(K_rows, JArr xs),
                         (K_eligibility, JObj
                            [(K_verdict, JStr (lit ''Unknown'')),
                             (K_summary, JStr (lit ''Could not determine eligibility.'')),
                             (K_next_steps, JArr [JStr (lit ''Please review manually.'')])])]))"
proof -
  have rows: "first_list (dict_values d) = JArr xs"
    using assms(2) by (rule first_list_single)
  have "post_parse (JObj d) =
      Inr (JObj [(K_rows, JArr xs), (K_eligibility, fallback_eligibility)])"
    if "map_of d K_eligibility = None"
    using post_parse_no_rows [OF assms(1)] that rows
    by (simp add: dict_get_def fallback_eligibility_def)
  moreover have "post_parse (JObj d) = Inr (JObj [(K_rows, JArr xs), (K_eligibility, JObj e)])"
    if "dict_get d K_eligibility fallback_eligibility = JObj e" for e
    using post_parse_no_rows [OF assms(1) that] rows by simp
  ultimately show ?thesis
    using assms(1) rows by (simp add: normalise_no_rows fallback_eligibility_def)
qed

lemma repair_no_list_field:
  assumes "map_of d K_rows = None"
    and "filter is_list (dict_values d) = []"
  shows "normalise (JObj d) =
           Inr (JObj [(K_rows, JArr []),
                      (K_eligibility,
                       case map_of d K_eligibility of
                         None \<Rightarrow> fallback_eligibility | Some e \<Rightarrow> e)]) \<and>
         (\<forall>e. dict_get d K_eligibility fallback_eligibility = JObj e \<longrightarrow>
            post_parse (JObj d) = Inr (JObj [(K_rows, JArr []), (K_eligibility, JObj e)])) \<and>
         (map_of d K_eligibility = None \<longrightarrow>
            post_parse (JObj d) =
              Inr (JObj [(K_rows, JArr []),
                         (K_eligibility, JObj
                            [(K_verdict, JStr (lit ''Unknown'')),
                             (K_summary, JStr (lit ''Could not determine eligibility.'')),
                             (K_next_steps, JArr [JStr (lit ''Please review manually.'')])])]))"
proof -
  have rows: "first_list (dict_values d) = JArr []"
    using assms(2) by (rule first_list_none)
  have "post_parse (JObj d) =
      Inr (JObj [(K_rows, JArr []),
                 (K_eligibility, JObj
                    [(K_verdict, JStr (lit ''Unknown'')),
                     (K_summary, JStr (lit ''Could not determine eligibility.'')),
                     (K_next_steps, JArr [JStr (lit ''Please review manually.'')])])])"
    if "map_of d K_eligibility = None"
    using post_parse_no_rows [OF assms(1)] that rows
    by (simp add: dict_get_def fallback_eligibility_def)
  moreover have "post_parse (JObj d) = Inr (JObj [(K_rows, JArr []), (K_eligibility, JObj e)])"
    if "dict_get d K_eligibility fallback_eligibility = JObj e" for e
    using post_parse_no_rows [OF assms(1) that] rows by simp
  ultimately show ?thesis
    using assms(1) rows by (simp add: normalise_no_rows dict_get_def)
qed

text \<open>
  C5. Claimed: for every object without a \<^verbatim>\<open>rows\<close> key and with exactly one list-valued
  field, that list is returned as \<^verbatim>\<open>rows\<close>. \<^verbatim>\<open>{"items": [1], "eligibility": "Eligible"}\<close> is
  such an object. The block builds \<^verbatim>\<open>{"rows": [1], "eligibility": "Eligible"}\<close> from it, and
  then the log line calls \<^verbatim>\<open>get\<close> on the string: the function raises \<^verbatim>\<open>AttributeError\<close> and
  returns nothing.
\<close>

theorem single_list_repair_lost_at_log_line:
  "map_of [(lit ''items'', JArr [JInt 1]), (lit ''eligibility'', JStr (lit ''Eligible''))]
     (lit ''rows'') = None \<and>
   filter is_list
     (dict_values [(lit ''items'', JArr [JInt 1]), (lit ''eligibility'', JStr (lit ''Eligible''))]) =
     [JArr [JInt 1]] \<and>
   normalise
     (JObj [(lit ''items'', JArr [JInt 1]), (lit ''eligibility'', JStr (lit ''Eligible''))]) =
     Inr (JObj [(lit ''rows'', JArr [JInt 1]), (lit ''eligibility'', JStr (lit ''Eligible''))]) \<and>
   post_parse
     (JObj [(lit ''items'', JArr [JInt 1]), (lit ''eligibility'', JStr (lit ''Eligible''))]) =
     Inl AttributeError"
  by (simp add: post_parse_def normalise_def log_args_def dict_has_def dict_get_def
      dict_values_def K_rows_def K_eligibility_def lit_simps)

text \<open>
  C10. Claimed: for every object without a \<^verbatim>\<open>rows\<close> key and without a list-valued field,
  the empty list is returned as \<^verbatim>\<open>rows\<close>, with the \<^verbatim>\<open>eligibility\<close> field if there is one.
  \<^verbatim>\<open>{"eligibility": 5}\<close> is such an object. The block builds
  \<^verbatim>\<open>{"rows": [], "eligibility": 5}\<close> from it, and then the log line calls \<^verbatim>\<open>get\<close> on the
  number: the function raises \<^verbatim>\<open>AttributeError\<close> and returns nothing.
\<close>

theorem empty_rows_repair_lost_at_log_line:
  "map_of [(lit ''eligibility'', JInt 5)] (lit ''rows'') = None \<and>
   filter is_list (dict_values [(lit ''eligibility'', JInt 5)]) = [] \<and>
   normalise (JObj [(lit ''eligibility'', JInt 5)]) =
     Inr (JObj [(lit ''rows'', JArr []), (lit ''eligibility'', JInt 5)]) \<and>
   post_parse (JObj [(lit ''eligibility'', JInt 5)]) = Inl AttributeError"
  by (simp add: post_parse_def normalise_def log_args_def dict_has_def dict_get_def
      dict_values_def K_rows_def K_eligibility_def lit_simps)

text \<open>
  C7. While \<^verbatim>\<open>_client\<close> is \<^verbatim>\<open>None\<close>, \<^verbatim>\<open>audit_claim\<close> raises the \<^verbatim>\<open>RuntimeError\<close> and leaves
  the state as it was: no request has been handed to the service, whatever the service and
  the arguments are.
\<close>

theorem audit_claim_unconfigured:
  assumes "client w = None"
  shows "audit_claim loads service w bill_text policy_baseline_text uploaded_policy_text
           model_name temp = (Inl (RuntimeError NOT_INITIALISED), w)"
  using assms by (simp add: audit_claim_def)

theorem audit_claim_unconfigured_witness:
  "client initial_world = None \<and>
   audit_claim (\<lambda>s. None) (\<lambda>key req. Inr [Some []]) initial_world (lit ''bill'') [] [] (lit ''m'') NaN =
     (Inl (RuntimeError NOT_INITIALISED), initial_world) \<and>
   sent initial_world = []"
  using audit_claim_unconfigured [of initial_world "\<lambda>s. None" "\<lambda>key req. Inr [Some []]"
      "lit ''bill''" "[]" "[]" "lit ''m''" NaN]
  by (simp add: initial_world_def)

section \<open>Properties of the fence stripping\<close>

lemma not_space_backtick: "\<not> is_space BACKTICK"
  by (simp add: is_space_def BACKTICK_def)

lemma dropWhile_spaces: "list_all is_space ws \<Longrightarrow> \<not> is_space x \<Longrightarrow>
    dropWhile is_space (ws @ x # xs) = x # xs"
  by (induction ws) auto

lemma py_strip_core:
  assumes "list_all is_space a" "list_all is_space b" "\<not> is_space x" "\<not> is_space z"
  shows "py_strip (a @ x # m @ z # b) = x # m @ [z]"
proof -
  have "dropWhile is_space (a @ x # m @ z # b) = x # m @ z # b"
    using assms(1,3) by (rule dropWhile_spaces)
  moreover have "dropWhile is_space (rev b @ z # rev m @ [x]) = z # rev m @ [x]"
    using assms(2,4) by (intro dropWhile_spaces) (simp add: list_all_iff)
  ultimately show ?thesis
    by (simp add: py_strip_def)
qed

lemma json_tag_length: "json_tag t \<Longrightarrow> length t = 4"
  by (auto simp: json_tag_def split: list.splits)

lemma json_tag_hd: "json_tag t \<Longrightarrow> hd t = 106 \<or> hd t = 74"
  by (auto simp: json_tag_def split: list.splits)

lemma space_not_j: "is_space c \<Longrightarrow> c \<noteq> 106 \<and> c \<noteq> 74"
  by (auto simp: is_space_def)

lemma strip_open_fence_tagged:
  assumes "json_tag tag" "list_all is_space ws" "\<not> is_space x"
  shows "strip_open_fence (FENCE @ tag @ ws @ x # rest) = x # rest"
  using assms json_tag_length [OF assms(1)]
  by (simp add: strip_open_fence_def FENCE_def dropWhile_spaces)

lemma strip_open_fence_untagged:
  assumes "list_all is_space ws" "\<not> is_space x" "x \<noteq> 106" "x \<noteq> 74"
  shows "strip_open_fence (FENCE @ ws @ x # rest) = x # rest"
proof -
  have "hd (take 4 (ws @ x # rest)) \<noteq> 106 \<and> hd (take 4 (ws @ x # rest)) \<noteq> 74"
    using assms space_not_j by (cases ws) auto
  then have "\<not> json_tag (take 4 (ws @ x # rest))"
    using json_tag_hd by blast
  then show ?thesis
    using assms(1,2) by (simp add: strip_open_fence_def FENCE_def dropWhile_spaces)
qed

lemma close_fence_at_end:
  assumes "list_all is_space ws"
  shows "strip_close_fence (ws @ FENCE) = []"
proof -
  have d: "dropWhile is_space (ws @ FENCE) = FENCE"
    using dropWhile_spaces [OF assms not_space_backtick] by (simp add: FENCE_def)
  then have "close_fence_here (ws @ FENCE)"
    by (simp add: close_fence_here_def FENCE_def)
  then show ?thesis
    using d by (cases "ws @ FENCE") (simp_all add: FENCE_def)
qed

lemma no_close_fence_inside:
  assumes "b \<noteq> []" "\<not> is_space (last b)"
  shows "\<not> close_fence_here (b @ ws @ FENCE)"
proof -
  define r where "r = dropWhile is_space b @ ws @ FENCE"
  have "last b \<in> set b" using assms(1) by simp
  then have split: "dropWhile is_space (b @ ws @ FENCE) = r"
    unfolding r_def using assms(2) by (intro dropWhile_append1)
  have ne: "dropWhile is_space b \<noteq> []"
    using \<open>last b \<in> set b\<close> assms(2) by (auto simp: dropWhile_eq_Nil_conv)
  have len: "\<not> length r \<le> 3"
    unfolding r_def using ne by (cases "dropWhile is_space b") (simp_all add: FENCE_def)
  have "last r = BACKTICK" by (simp add: r_def FENCE_def)
  moreover have "last (drop 3 r) = last r"
    using len by (intro last_drop) simp
  ultimately have "drop 3 r \<noteq> [NL]"
    by (auto simp: NL_def BACKTICK_def)
  moreover have "drop 3 r \<noteq> []"
    using len by (metis drop_eq_Nil)
  ultimately show ?thesis
    by (simp add: close_fence_here_def split)
qed

lemma strip_close_fence_body:
  assumes "b \<noteq> []" "\<not> is_space (last b)" "list_all is_space ws"
  shows "strip_close_fence (b @ ws @ FENCE) = b"
  using assms
proof (induction b)
  case Nil
  then show ?case by simp
next
  case (Cons x b)
  have no: "\<not> close_fence_here ((x # b) @ ws @ FENCE)"
    using Cons.prems(1,2) by (rule no_close_fence_inside)
  show ?case
  proof (cases "b = []")
    case True
    then show ?thesis
      using no close_fence_at_end [OF Cons.prems(3)] by simp
  next
    case False
    then have "strip_close_fence (b @ ws @ FENCE) = b"
      using Cons by simp
    then show ?thesis using no by simp
  qed
qed

text \<open>
  C6. A response made of a fence, an optional \<^verbatim>\<open>json\<close> tag in any letter case, the text and
  a closing fence, with any whitespace around and between them, is cut down to the text
  before \<^verbatim>\<open>json.loads\<close> sees it, so the response is handled as the text alone would be. The
  text is taken without its own surrounding whitespace; after an untagged fence it must not
  start with the letter j, which no JSON text does.
\<close>

theorem fenced_response_is_unwrapped:
  assumes "tag = [] \<or> json_tag tag"
    and "list_all is_space lead" "list_all is_space ws1"
    and "list_all is_space ws2" "list_all is_space trail"
    and "body \<noteq> []" "\<not> is_space (hd body)" "\<not> is_space (last body)"
    and "tag = [] \<longrightarrow> hd body \<noteq> 106 \<and> hd body \<noteq> 74"
  shows "strip_code_fences (lead @ FENCE @ tag @ ws1 @ body @ ws2 @ FENCE @ trail) = body \<and>
         audit_response loads (lead @ FENCE @ tag @ ws1 @ body @ ws2 @ FENCE @ trail) =
           (case loads body of None \<Rightarrow> Inl JSONDecodeError | Some parsed \<Rightarrow> post_parse parsed)"
proof -
  obtain x rest where body: "body = x # rest"
    using assms(6) by (cases body) auto
  let ?inner = "tag @ ws1 @ body @ ws2"
  have "lead @ FENCE @ tag @ ws1 @ body @ ws2 @ FENCE @ trail =
        lead @ BACKTICK # ([BACKTICK, BACKTICK] @ ?inner @ [BACKTICK, BACKTICK]) @ BACKTICK # trail"
    by (simp add: FENCE_def)
  then have stripped: "py_strip (lead @ FENCE @ tag @ ws1 @ body @ ws2 @ FENCE @ trail) =
      FENCE @ tag @ ws1 @ body @ ws2 @ FENCE"
    using py_strip_core [OF assms(2) assms(5) not_space_backtick not_space_backtick,
        of "[BACKTICK, BACKTICK] @ ?inner @ [BACKTICK, BACKTICK]"]
    by (simp add: FENCE_def)
  have opened: "strip_open_fence (FENCE @ tag @ ws1 @ body @ ws2 @ FENCE) = body @ ws2 @ FENCE"
  proof (cases "tag = []")
    case True
    then show ?thesis
      using strip_open_fence_untagged [OF assms(3), of x "rest @ ws2 @ FENCE"] assms(7,9) body
      by simp
  next
    case False
    then have "json_tag tag" using assms(1) by simp
    then show ?thesis
      using strip_open_fence_tagged [OF _ assms(3), of tag x "rest @ ws2 @ FENCE"] assms(7) body
      by simp
  qed
  have "strip_code_fences (lead @ FENCE @ tag @ ws1 @ body @ ws2 @ FENCE @ trail) = body"
    using stripped opened strip_close_fence_body [OF assms(6) assms(8) assms(4)]
    by (simp add: strip_code_fences_def)
  then show ?thesis
    by (simp add: audit_response_def)
qed

theorem fenced_response_is_unwrapped_witness:
  \<open>strip_code_fences ([NL] @ FENCE @ lit ''JSON'' @ [NL] @ lit ''{"a": []}'' @ [NL] @ FENCE @ [32]) =
     lit ''{"a": []}'' \<and>
   audit_response (\<lambda>s. if s = lit ''{"a": []}'' then Some (JObj [(lit ''a'', JArr [])]) else None)
     ([NL] @ FENCE @ lit ''JSON'' @ [NL] @ lit ''{"a": []}'' @ [NL] @ FENCE @ [32]) =
     Inr (JObj [(K_rows, JArr []), (K_eligibility, fallback_eligibility)])\<close>
proof -
  have post: "post_parse (JObj [(lit ''a'', JArr [])]) =
      Inr (JObj [(K_rows, JArr []), (K_eligibility, fallback_eligibility)])"
    by (simp add: post_parse_def normalise_def dict_has_def dict_values_def dict_get_def
        log_args_def fallback_eligibility_def K_rows_def K_eligibility_def lit_simps)
  show ?thesis
    using fenced_response_is_unwrapped
      [of \<open>lit ''JSON''\<close> "[NL]" "[NL]" "[NL]" "[32]" \<open>lit ''{"a": []}''\<close>
          \<open>\<lambda>s. if s = lit ''{"a": []}'' then Some (JObj [(lit ''a'', JArr [])]) else None\<close>]
      post
    by (simp add: json_tag_def is_space_def NL_def lit_simps)
qed

section \<open>Properties of the prompt assembly\<close>

subsection \<open>Lines\<close>

lemma split_lines_nonempty: "split_lines t \<noteq> []"
  by (induction t) (auto split: list.splits)

lemma split_lines_append: "split_lines (a @ NL # b) = split_lines a @ split_lines b"
  by (induction a) (auto split: list.splits simp: split_lines_nonempty)

lemma split_lines_line: "NL \<notin> set l \<Longrightarrow> split_lines l = [l]"
  by (induction l) auto

lemma join_nl_Cons: "ys \<noteq> [] \<Longrightarrow> join_nl (x # ys) = x @ NL # join_nl ys"
  by (cases ys) (simp_all add: join_nl_def)

lemma join_nl_single: "join_nl [x] = x"
  by (simp add: join_nl_def)

lemma join_nl_append:
  "xs \<noteq> [] \<Longrightarrow> ys \<noteq> [] \<Longrightarrow> join_nl (xs @ ys) = join_nl xs @ NL # join_nl ys"
proof (induction xs)
  case Nil
  then show ?case by simp
next
  case (Cons x xs)
  then show ?case
    by (cases "xs = []") (simp_all add: join_nl_Cons join_nl_single)
qed

lemma last_join_nl_aux:
  "ls \<noteq> [] \<Longrightarrow> last ls \<noteq> [] \<Longrightarrow> join_nl ls \<noteq> [] \<and> last (join_nl ls) = last (last ls)"
proof (induction ls)
  case Nil
  then show ?case by simp
next
  case (Cons l ls)
  then show ?case
    by (cases "ls = []") (simp_all add: join_nl_Cons join_nl_single)
qed

lemma last_join_nl: "ls \<noteq> [] \<Longrightarrow> last ls \<noteq> [] \<Longrightarrow> last (join_nl ls) = last (last ls)"
  by (simp add: last_join_nl_aux)

subsection \<open>Blanking and indentation, piece by piece\<close>

lemma blank_ws_lines_append:
  "blank_ws_lines (a @ NL # b) = blank_ws_lines a @ NL # blank_ws_lines b"
  by (simp add: blank_ws_lines_def split_lines_append join_nl_append split_lines_nonempty)

lemma blank_ws_lines_line:
  "NL \<notin> set l \<Longrightarrow> blank_ws_lines l = (if whitespace_only l then [] else l)"
  by (simp add: blank_ws_lines_def split_lines_line join_nl_single)

lemma blank_ws_lines_join:
  "ps \<noteq> [] \<Longrightarrow> blank_ws_lines (join_nl ps) = join_nl (map blank_ws_lines ps)"
proof (induction ps)
  case Nil
  then show ?case by simp
next
  case (Cons p ps)
  then show ?case
    by (cases "ps = []") (simp_all add: join_nl_Cons join_nl_single blank_ws_lines_append)
qed

lemma indents_append: "indents (a @ NL # b) = indents a @ indents b"
  by (simp add: indents_def split_lines_append)

lemma indents_join: "ps \<noteq> [] \<Longrightarrow> indents (join_nl ps) = concat (map indents ps)"
proof (induction ps)
  case Nil
  then show ?case by simp
next
  case (Cons p ps)
  then show ?case
    by (cases "ps = []") (simp_all add: join_nl_Cons join_nl_single indents_append)
qed

subsection \<open>The margin\<close>

lemma startswith_Nil: "startswith [] p \<longleftrightarrow> p = []"
  by (cases p) simp_all

lemma margin_step_empty: "margin_step m [] = Some []"
  by (cases m) (simp_all add: startswith_Nil)

lemma margin_stays_empty: "foldl margin_step (Some []) xs = Some []"
  by (induction xs) auto

lemma margin_empty: "[] \<in> set xs \<Longrightarrow> foldl margin_step m xs = Some []"
proof (induction xs arbitrary: m)
  case Nil
  then show ?case by simp
next
  case (Cons x xs)
  then show ?case
    by (cases "x = []") (auto simp: margin_step_empty margin_stays_empty)
qed

lemma dedent_no_margin: "[] \<in> set (indents (blank_ws_lines t)) \<Longrightarrow> dedent t = blank_ws_lines t"
  by (simp add: dedent_def margin_empty)


subsection \<open>The few-shot block\<close>

lemma example_lines_ok:
  "list_all (\<lambda>l. NL \<notin> set l \<and> \<not> whitespace_only l) EXAMPLE_LINES"
  by (simp add: EXAMPLE_LINES_def lit_simps NL_def whitespace_only_def blank_char_def)

lemma example_lines_nonempty: "EXAMPLE_LINES \<noteq> []"
  by (simp add: EXAMPLE_LINES_def)

lemma tag_lines_ok:
  "NL \<notin> set (lit ''<examples>'')" "\<not> whitespace_only (lit ''<examples>'')"
  "NL \<notin> set (lit ''</examples>'')" "\<not> whitespace_only (lit ''</examples>'')"
  "\<not> whitespace_only []"
  by (simp_all add: lit_simps NL_def whitespace_only_def blank_char_def)

lemma indents_open_tag: "indents (lit ''<examples>'') = [[]]"
  by (simp add: indents_def split_lines_line tag_lines_ok) (simp add: lit_simps blank_char_def)

lemma few_shot_lines:
  defines "ls \<equiv> [[], lit ''<examples>''] @ EXAMPLE_LINES @ [lit ''</examples>'', []]"
  shows "FEW_SHOT_EXAMPLES = join_nl ls"
    and "blank_ws_lines (join_nl ls) = join_nl ls"
    and "[] \<in> set (indents (join_nl ls))"
proof -
  have ok: "\<forall>l\<in>set ls. NL \<notin> set l \<and> \<not> whitespace_only l"
    using example_lines_ok by (auto simp: ls_def list_all_iff tag_lines_ok)
  have ne: "ls \<noteq> []" by (simp add: ls_def)
  have "map blank_ws_lines ls = ls"
    using ok by (intro map_idI) (simp add: blank_ws_lines_line)
  then show blank: "blank_ws_lines (join_nl ls) = join_nl ls"
    by (simp add: blank_ws_lines_join ne)
  have "lit ''<examples>'' \<in> set ls" by (simp add: ls_def)
  then have "[] \<in> set (concat (map indents ls))"
    using indents_open_tag by force
  then show ind: "[] \<in> set (indents (join_nl ls))"
    by (simp add: indents_join ne)
  show "FEW_SHOT_EXAMPLES = join_nl ls"
    unfolding FEW_SHOT_EXAMPLES_def ls_def [symmetric]
    using dedent_no_margin [of "join_nl ls"] blank ind by simp
qed

lemma few_shot_examples_eq:
  "FEW_SHOT_EXAMPLES =
     NL # lit ''<examples>'' @ NL # join_nl EXAMPLE_LINES @ NL # lit ''</examples>'' @ [NL]"
  using few_shot_lines(1) example_lines_nonempty
  by (simp add: join_nl_Cons join_nl_append join_nl_single)

lemma few_shot_blank: "blank_ws_lines FEW_SHOT_EXAMPLES = FEW_SHOT_EXAMPLES"
  using few_shot_lines(1,2) by simp

lemma few_shot_indents: "[] \<in> set (indents FEW_SHOT_EXAMPLES)"
  using few_shot_lines(1,3) by simp

lemma indented_few_shot_blank:
  "blank_ws_lines (lit ''    '' @ FEW_SHOT_EXAMPLES) = FEW_SHOT_EXAMPLES"
proof -
  obtain r where r: "FEW_SHOT_EXAMPLES = NL # r"
    using few_shot_examples_eq by simp
  have "blank_ws_lines ([] @ NL # r) = blank_ws_lines [] @ NL # blank_ws_lines r"
    by (rule blank_ws_lines_append)
  then have "NL # blank_ws_lines r = NL # r"
    using few_shot_blank r by (simp add: blank_ws_lines_line tag_lines_ok)
  moreover have "blank_ws_lines (lit ''    '' @ NL # r) =
      blank_ws_lines (lit ''    '') @ NL # blank_ws_lines r"
    by (rule blank_ws_lines_append)
  moreover have "blank_ws_lines (lit ''    '') = []"
    by (simp add: blank_ws_lines_line lit_simps NL_def whitespace_only_def blank_char_def)
  ultimately show ?thesis
    using r by simp
qed

subsection \<open>The assembled message\<close>

lemma template_lines_blank:
  "blank_ws_lines [] = []"
  "blank_ws_lines (lit ''    '') = []"
  "blank_ws_lines (lit ''    <policy_baseline>'') = lit ''    <policy_baseline>''"
  "blank_ws_lines (lit ''    </policy_baseline>'') = lit ''    </policy_baseline>''"
  "blank_ws_lines (lit ''    <uploaded_policy>'') = lit ''    <uploaded_policy>''"
  "blank_ws_lines (lit ''    </uploaded_policy>'') = lit ''    </uploaded_policy>''"
  "blank_ws_lines (lit ''    <bill>'') = lit ''    <bill>''"
  "blank_ws_lines (lit ''    </bill>'') = lit ''    </bill>''"
  "blank_ws_lines (lit ''    Now perform the full audit and return the JSON object.'') =
     lit ''    Now perform the full audit and return the JSON object.''"
  by (simp_all add: blank_ws_lines_line lit_simps NL_def whitespace_only_def blank_char_def)

lemma dedent_user_template:
  "dedent (user_template bill pol upl) =
     join_nl
       [[],
        FEW_SHOT_EXAMPLES,
        [],
        lit ''    <policy_baseline>'',
        blank_ws_lines (lit ''    '' @ pol),
        lit ''    </policy_baseline>'',
        [],
        lit ''    <uploaded_policy>'',
        blank_ws_lines (lit ''    '' @ (if py_strip upl \<noteq> [] then upl else NO_UPLOAD)),
        lit ''    </uploaded_policy>'',
        [],
        lit ''    <bill>'',
        blank_ws_lines (lit ''    '' @ bill),
        lit ''    </bill>'',
        [],
        lit ''    Now perform the full audit and return the JSON object.'',
        []]"
  (is "_ = join_nl ?ps")
proof -
  have blank: "blank_ws_lines (user_template bill pol upl) = join_nl ?ps"
    unfolding user_template_def
    by (subst blank_ws_lines_join) (simp_all add: template_lines_blank indented_few_shot_blank)
  have "indents (join_nl ?ps) = concat (map indents ?ps)"
    by (rule indents_join) simp
  then have "[] \<in> set (indents (join_nl ?ps))"
    using few_shot_indents by simp
  then show ?thesis
    using dedent_no_margin [of "user_template bill pol upl"] blank by simp
qed

lemma py_strip_trim:
  assumes "list_all is_space a" "list_all is_space b"
    and "s \<noteq> []" "\<not> is_space (hd s)" "\<not> is_space (last s)"
  shows "py_strip (a @ s @ b) = s"
proof -
  obtain x t where s: "s = x # t" using assms(3) by (cases s) auto
  obtain u z where u: "s = u @ [z]" using assms(3) by (cases s rule: rev_cases) auto
  have front: "dropWhile is_space (a @ s @ b) = s @ b"
    using dropWhile_spaces [OF assms(1), of x "t @ b"] assms(4) s by simp
  have "list_all is_space (rev b)" using assms(2) by (simp add: list_all_iff)
  moreover have "\<not> is_space z" using assms(5) u by simp
  ultimately have "dropWhile is_space (rev b @ z # rev u) = z # rev u"
    by (rule dropWhile_spaces)
  then show ?thesis
    using front u by (simp add: py_strip_def)
qed

lemma build_user_message_eq:
  "build_user_message bill pol upl =
     join_nl
       [lit ''<examples>'' @ NL # join_nl EXAMPLE_LINES @ NL # lit ''</examples>'' @ [NL],
        [],
        lit ''    <policy_baseline>'',
        blank_ws_lines (lit ''    '' @ pol),
        lit ''    </policy_baseline>'',
        [],
        lit ''    <uploaded_policy>'',
        blank_ws_lines (lit ''    '' @ (if py_strip upl \<noteq> [] then upl else NO_UPLOAD)),
        lit ''    </uploaded_policy>'',
        [],
        lit ''    <bill>'',
        blank_ws_lines (lit ''    '' @ bill),
        lit ''    </bill>'',
        [],
        lit ''    Now perform the full audit and return the JSON object.'']"
  (is "_ = join_nl ?ps")
proof -
  have shape: "dedent (user_template bill pol upl) = [NL, NL] @ join_nl ?ps @ [NL]"
    by (simp add: dedent_user_template few_shot_examples_eq join_nl_def)
  have "join_nl ?ps \<noteq> []"
    by (simp add: join_nl_def)
  moreover have "hd (join_nl ?ps) = 60"
    by (simp add: join_nl_def lit_simps)
  moreover have "last (join_nl ?ps) = 46"
    by (subst last_join_nl) (simp_all add: lit_simps)
  ultimately have "py_strip ([NL, NL] @ join_nl ?ps @ [NL]) = join_nl ?ps"
    by (intro py_strip_trim) (simp_all add: is_space_def NL_def)
  then show ?thesis
    by (simp add: build_user_message_def shape)
qed


text \<open>
  C9. The message is the few-shot block, the baseline policy, the uploaded policy (or the
  placeholder) and the bill, in this order, each between its pair of tags, followed by the
  closing instruction. The template lines keep their four-space indentation, and
  \<^verbatim>\<open>textwrap.dedent\<close> has emptied the lines made of spaces and tabs only. The function is
  total: it returns this string for every three strings.
\<close>

theorem user_message_layout:
  "build_user_message bill_text policy_baseline_text uploaded_policy_text =
     lit ''<examples>'' @ [NL] @ join_nl EXAMPLE_LINES @ [NL] @ lit ''</examples>'' @
     [NL, NL, NL] @
     lit ''    <policy_baseline>'' @ [NL] @
     blank_ws_lines (lit ''    '' @ policy_baseline_text) @ [NL] @
     lit ''    </policy_baseline>'' @
     [NL, NL] @
     lit ''    <uploaded_policy>'' @ [NL] @
     blank_ws_lines
       (lit ''    '' @
        (if py_strip uploaded_policy_text \<noteq> [] then uploaded_policy_text else NO_UPLOAD)) @ [NL] @
     lit ''    </uploaded_policy>'' @
     [NL, NL] @
     lit ''    <bill>'' @ [NL] @
     blank_ws_lines (lit ''    '' @ bill_text) @ [NL] @
     lit ''    </bill>'' @
     [NL, NL] @
     lit ''    Now perform the full audit and return the JSON object.''"
  by (simp add: build_user_message_eq join_nl_def)

subsection \<open>What the uploaded-policy segment holds\<close>

lemma join_nl_push: "join_nl ((c # l) # ls) = c # join_nl (l # ls)"
  by (cases ls) (simp_all add: join_nl_def)

lemma join_split_lines: "join_nl (split_lines t) = t"
proof (induction t)
  case Nil
  then show ?case by (simp add: join_nl_def)
next
  case (Cons c t)
  show ?case
  proof (cases "c = NL")
    case True
    then show ?thesis
      using Cons by (simp add: join_nl_Cons split_lines_nonempty)
  next
    case False
    obtain l ls where "split_lines t = l # ls"
      using split_lines_nonempty by (cases "split_lines t") auto
    then show ?thesis
      using False Cons by (simp add: join_nl_push)
  qed
qed

lemma blank_ws_lines_id:
  assumes "\<forall>l\<in>set (split_lines t). \<not> whitespace_only l"
  shows "blank_ws_lines t = t"
proof -
  have "map (\<lambda>l. if whitespace_only l then [] else l) (split_lines t) = split_lines t"
    using assms by (intro map_idI) simp
  then show ?thesis
    by (simp add: blank_ws_lines_def join_split_lines)
qed

lemma no_upload_line:
  "blank_ws_lines (lit ''    '' @ NO_UPLOAD) =
     lit ''    No insurer-specific policy uploaded. Use baseline only.''"
  by (simp add: NO_UPLOAD_def blank_ws_lines_line lit_simps NL_def whitespace_only_def
      blank_char_def)

text \<open>
  C8. For an empty or whitespace-only uploaded text the segment between the
  \<^verbatim>\<open>uploaded_policy\<close> tags is the fallback phrase. For any other text the segment is the text
  behind the four-space indentation of the template line, with every line made of spaces
  and tabs only emptied by \<^verbatim>\<open>textwrap.dedent\<close>; when the indented text has no such line, this
  is the text itself.
\<close>

theorem uploaded_policy_segment:
  "(\<exists>pre post.
      build_user_message bill_text policy_baseline_text uploaded_policy_text =
        pre @
        lit ''<uploaded_policy>'' @ [NL] @
        (if py_strip uploaded_policy_text = []
         then lit ''    No insurer-specific policy uploaded. Use baseline only.''
         else blank_ws_lines (lit ''    '' @ uploaded_policy_text)) @ [NL] @
        lit ''    </uploaded_policy>'' @
        post) \<and>
   ((\<forall>l\<in>set (split_lines (lit ''    '' @ uploaded_policy_text)). \<not> whitespace_only l) \<longrightarrow>
      blank_ws_lines (lit ''    '' @ uploaded_policy_text) = lit ''    '' @ uploaded_policy_text)"
proof -
  let ?pre = "lit ''<examples>'' @ [NL] @ join_nl EXAMPLE_LINES @ [NL] @ lit ''</examples>'' @
     [NL, NL, NL] @
     lit ''    <policy_baseline>'' @ [NL] @
     blank_ws_lines (lit ''    '' @ policy_baseline_text) @ [NL] @
     lit ''    </policy_baseline>'' @
     [NL, NL] @ lit ''    ''"
  let ?post = "[NL, NL] @
     lit ''    <bill>'' @ [NL] @
     blank_ws_lines (lit ''    '' @ bill_text) @ [NL] @
     lit ''    </bill>'' @
     [NL, NL] @
     lit ''    Now perform the full audit and return the JSON object.''"
  have "build_user_message bill_text policy_baseline_text uploaded_policy_text =
        ?pre @
        lit ''<uploaded_policy>'' @ [NL] @
        (if py_strip uploaded_policy_text = []
         then lit ''    No insurer-specific policy uploaded. Use baseline only.''
         else blank_ws_lines (lit ''    '' @ uploaded_policy_text)) @ [NL] @
        lit ''    </uploaded_policy>'' @
        ?post"
    by (simp add: build_user_message_eq join_nl_def no_upload_line) (simp add: lit_simps)
  then show ?thesis
    using blank_ws_lines_id by blast
qed

theorem uploaded_policy_segment_witness:
  "split_lines (lit ''    '' @ lit ''ICU cap 9000'') = [lit ''    ICU cap 9000''] \<and>
   \<not> whitespace_only (lit ''    ICU cap 9000'') \<and>
   py_strip (lit ''ICU cap 9000'') \<noteq> [] \<and>
   (\<exists>pre post.
      build_user_message (lit ''bill'') (lit ''baseline'') (lit ''ICU cap 9000'') =
        pre @
        lit ''<uploaded_policy>'' @ [NL] @ lit ''    ICU cap 9000'' @ [NL] @
        lit ''    </uploaded_policy>'' @
        post)"
proof -
  have lines: "\<forall>l\<in>set (split_lines (lit ''    '' @ lit ''ICU cap 9000'')). \<not> whitespace_only l"
    by (simp add: lit_simps NL_def whitespace_only_def blank_char_def)
  have strip: "py_strip (lit ''ICU cap 9000'') \<noteq> []"
    by (simp add: py_strip_def lit_simps is_space_def)
  have same: "lit ''    '' @ lit ''ICU cap 9000'' = lit ''    ICU cap 9000''"
    by (simp add: lit_simps)
  have id: "blank_ws_lines (lit ''    '' @ lit ''ICU cap 9000'') = lit ''    '' @ lit ''ICU cap 9000''"
    using uploaded_policy_segment [of "lit ''bill''" "lit ''baseline''" "lit ''ICU cap 9000''"]
      lines by simp
  have "\<exists>pre post.
      build_user_message (lit ''bill'') (lit ''baseline'') (lit ''ICU cap 9000'') =
        pre @
        lit ''<uploaded_policy>'' @ [NL] @
        blank_ws_lines (lit ''    '' @ lit ''ICU cap 9000'') @ [NL] @
        lit ''    </uploaded_policy>'' @
        post"
    using uploaded_policy_segment [of "lit ''bill''" "lit ''baseline''" "lit ''ICU cap 9000''"]
      strip by simp
  then have "\<exists>pre post.
      build_user_message (lit ''bill'') (lit ''baseline'') (lit ''ICU cap 9000'') =
        pre @
        lit ''<uploaded_policy>'' @ [NL] @ lit ''    ICU cap 9000'' @ [NL] @
        lit ''    </uploaded_policy>'' @
        post"
    using id by (simp only: same)
  moreover have "split_lines (lit ''    '' @ lit ''ICU cap 9000'') = [lit ''    ICU cap 9000'']"
    by (simp add: lit_simps NL_def)
  ultimately show ?thesis
    using lines strip by simp
qed

subsection \<open>A text that is not embedded as it is\<close>

lemma startswith_append: "startswith h n \<Longrightarrow> \<exists>post. h = n @ post"
  by (induction h n rule: startswith.induct) auto

lemma contains_append: "contains h n \<Longrightarrow> \<exists>pre post. h = pre @ n @ post"
proof (induction h)
  case Nil
  then show ?case by simp
next
  case (Cons c h)
  show ?case
  proof (cases "startswith (c # h) n")
    case True
    then obtain post where "c # h = [] @ n @ post"
      using startswith_append by fastforce
    then show ?thesis by blast
  next
    case False
    then obtain pre post where "h = pre @ n @ post"
      using Cons by auto
    then have "c # h = (c # pre) @ n @ post" by simp
    then show ?thesis by blast
  qed
qed

lemma split_lines_no_newline: "l \<in> set (split_lines t) \<Longrightarrow> NL \<notin> set l"
  by (induction t arbitrary: l) (auto split: if_splits list.splits)

lemma split_lines_join:
  "ls \<noteq> [] \<Longrightarrow> \<forall>l\<in>set ls. NL \<notin> set l \<Longrightarrow> split_lines (join_nl ls) = ls"
proof (induction ls)
  case Nil
  then show ?case by simp
next
  case (Cons l ls)
  then show ?case
    by (cases "ls = []")
      (simp_all add: join_nl_Cons join_nl_single split_lines_append split_lines_line)
qed

lemma no_blank_line_left:
  assumes "whitespace_only l"
  shows "l \<notin> set (split_lines (blank_ws_lines t))"
proof -
  let ?f = "\<lambda>l. if whitespace_only l then [] else l"
  have "\<forall>k\<in>set (map ?f (split_lines t)). NL \<notin> set k"
    using split_lines_no_newline by auto
  then have "split_lines (blank_ws_lines t) = map ?f (split_lines t)"
    unfolding blank_ws_lines_def by (intro split_lines_join) (simp_all add: split_lines_nonempty)
  moreover have "l \<notin> set (map ?f (split_lines t))"
    using assms by (auto simp: whitespace_only_def)
  ultimately show ?thesis by simp
qed

lemma no_blank_line_inside:
  assumes "whitespace_only l"
  shows "blank_ws_lines t \<noteq> pre @ NL # l @ NL # post"
proof
  assume eq: "blank_ws_lines t = pre @ NL # l @ NL # post"
  have "NL \<notin> set l"
    using assms by (auto simp: whitespace_only_def list_all_iff blank_char_def NL_def)
  then have "split_lines (pre @ NL # l @ NL # post) = split_lines pre @ [l] @ split_lines post"
    by (simp add: split_lines_append split_lines_line)
  then have "l \<in> set (split_lines (blank_ws_lines t))"
    using eq by simp
  then show False
    using no_blank_line_left [OF assms] by simp
qed

lemma user_message_inside_blanked:
  "\<exists>a b. blank_ws_lines (user_template bill pol upl) = a @ build_user_message bill pol upl @ b"
proof -
  have d: "dedent (user_template bill pol upl) = blank_ws_lines (user_template bill pol upl)"
  proof -
    have "blank_ws_lines (user_template bill pol upl) = dedent (user_template bill pol upl)"
      unfolding user_template_def dedent_user_template [unfolded user_template_def]
      by (subst blank_ws_lines_join) (simp_all add: template_lines_blank indented_few_shot_blank)
    then show ?thesis by simp
  qed
  have "dedent (user_template bill pol upl) = [NL, NL] @ build_user_message bill pol upl @ [NL]"
    by (simp add: dedent_user_template build_user_message_eq few_shot_examples_eq join_nl_def)
  then show ?thesis
    using d by metis
qed

text \<open>
  C8, as first stated, asks for the text itself in the segment. The uploaded text
  \<^verbatim>\<open>"a\n \nb"\<close> is not blank, and the message does not contain it: its
  middle line, a single space, has been emptied.
\<close>

theorem text_with_blank_line_not_embedded:
  "py_strip (lit ''a'' @ [NL, 32, NL] @ lit ''b'') \<noteq> [] \<and>
   \<not> contains (build_user_message (lit ''bill'') (lit ''baseline'') (lit ''a'' @ [NL, 32, NL] @ lit ''b''))
        (lit ''a'' @ [NL, 32, NL] @ lit ''b'')"
proof -
  let ?u = "lit ''a'' @ [NL, 32, NL] @ lit ''b''"
  let ?m = "build_user_message (lit ''bill'') (lit ''baseline'') ?u"
  have "\<not> contains ?m ?u"
  proof
    assume "contains ?m ?u"
    then obtain pre post where m: "?m = pre @ ?u @ post"
      using contains_append by blast
    obtain a b where "blank_ws_lines (user_template (lit ''bill'') (lit ''baseline'') ?u) = a @ ?m @ b"
      using user_message_inside_blanked by blast
    then have "blank_ws_lines (user_template (lit ''bill'') (lit ''baseline'') ?u) =
        (a @ pre @ lit ''a'') @ NL # [32] @ NL # (lit ''b'' @ post @ b)"
      using m by simp
    moreover have "whitespace_only [32]"
      by (simp add: whitespace_only_def blank_char_def)
    ultimately show False
      using no_blank_line_inside by blast
  qed
  moreover have "py_strip ?u \<noteq> []"
    by (simp add: py_strip_def lit_simps is_space_def NL_def)
  ultimately show ?thesis by simp
qed

section \<open>Properties of the compact policy text\<close>

lemma number_formats:
  "int_str 0 = lit ''0''" "int_str 2 = lit ''2''" "int_str 9 = lit ''9''"
  "int_str 10 = lit ''10''" "int_str 12 = lit ''12''" "int_str 18 = lit ''18''"
  "int_str 20 = lit ''20''" "int_str 24 = lit ''24''" "int_str 30 = lit ''30''"
  "int_str 65 = lit ''65''"
  "tenths_str 150 = lit ''15.0''" "tenths_str 400 = lit ''40.0''"
  "int_commas 2000 = lit ''2,000''" "int_commas 5000 = lit ''5,000''"
  "int_commas 10000 = lit ''10,000''" "int_commas 20000 = lit ''20,000''"
  "int_commas 40000 = lit ''40,000''" "int_commas 50000 = lit ''50,000''"
  "int_commas 200000 = lit ''200,000''" "int_commas 300000 = lit ''300,000''"
  "int_commas 500000 = lit ''500,000''" "int_commas 1000000 = lit ''1,000,000''"
  "int_commas 2500000 = lit ''2,500,000''"
  by (simp_all add: int_str_def tenths_str_def int_commas_def nat_commas.simps nat_str.simps
      three_digits_def lit_simps)


lemma policy_lookups:
  "map_of (sub_limits GENERALISED_POLICY) (lit ''room_rent_per_day_inr'') = Some 5000"
  "map_of (sub_limits GENERALISED_POLICY) (lit ''icu_rent_per_day_inr'') = Some 10000"
  "map_of (sub_limits GENERALISED_POLICY) (lit ''ambulance_per_event_inr'') = Some 2000"
  "map_of (sub_limits GENERALISED_POLICY) (lit ''cataract_per_eye_inr'') = Some 40000"
  "map_of (sub_limits GENERALISED_POLICY) (lit ''mental_health_inr'') = Some 50000"
  "map_of (sub_limits GENERALISED_POLICY) (lit ''ayush_treatment_inr'') = Some 20000"
  "map_of (copay GENERALISED_POLICY) (lit ''default_copay_percent'') = Some 0"
  "map_of (copay GENERALISED_POLICY) (lit ''senior_citizen_copay_percent'') = Some 20"
  "map_of (copay GENERALISED_POLICY) (lit ''non_network_hospital_copay_percent'') = Some 20"
  "map_of (copay GENERALISED_POLICY) (lit ''pre_existing_copay_percent'') = Some 10"
  by (simp_all add: GENERALISED_POLICY_def lit_simps)

lemma py_strip_framed:
  assumes "s \<noteq> []" "\<not> is_space (hd s)" "\<not> is_space (last s)"
  shows "py_strip (NL # s @ [NL]) = s"
  using py_strip_trim [of "[NL]" "[NL]" s] assms by (simp add: is_space_def NL_def)

lemma policy_text_unstripped:
  "get_policy_as_prompt_text GENERALISED_POLICY =
     Some (py_strip (NL # join_nl
       [lit ''POLICY: MediAudit Generalised Health Insurance Baseline v1.0'',
        [],
        lit ''ELIGIBILITY:'',
        lit ''- Age: 18'' @ [8211] @ lit ''65 years'',
        lit ''- BMI: 15.0'' @ [8211] @ lit ''40.0'',
        [],
        lit ''WAITING PERIODS:'',
        lit ''- Initial waiting: 30 days (no claims)'',
        lit ''- Pre-existing diseases (PED): 2 years'',
        lit ''- Maternity: 9 months'',
        lit ''- Specific illnesses: cataract (24m); hernia (24m); knee replacement (24m); hip replacement (24m); varicose veins (12m); sinusitis (12m); piles fistula (12m); kidney stones (12m); hysterectomy (24m); joint replacement (24m)'',
        [],
        lit ''SUB-LIMITS (INR):'',
        lit ''- Room rent: '' @ [8377] @ lit ''5,000/day'',
        lit ''- ICU: '' @ [8377] @ lit ''10,000/day'',
        lit ''- Ambulance: '' @ [8377] @ lit ''2,000/event'',
        lit ''- Cataract: '' @ [8377] @ lit ''40,000/eye'',
        lit ''- Mental health: '' @ [8377] @ lit ''50,000'',
        lit ''- AYUSH: '' @ [8377] @ lit ''20,000'',
        lit ''- Dental: EXCLUDED'',
        lit ''- Cosmetic: EXCLUDED'',
        [],
        lit ''CO-PAY:'',
        lit ''- Standard: 0%'',
        lit ''- Senior citizen (>60): 20%'',
        lit ''- Non-network hospital: 20%'',
        lit ''- PED claims: 10%'',
        [],
        lit ''PRE-EXISTING CONDITIONS (PED) '' @ [8212] @ lit '' covered after 2 years:'',
        lit ''Diabetes Mellitus (Type 1 & 2), Hypertension / High Blood Pressure, Asthma, Chronic Obstructive Pulmonary Disease (COPD), Thyroid disorders, Cardiac conditions (IHD, heart attack history), Chronic kidney disease, Cancer (within 5 years of remission), Epilepsy, Arthritis (Rheumatoid)'',
        [],
        lit ''EXCLUSIONS:'',
        lit ''- Cosmetic or aesthetic treatments'',
        lit ''- Self-inflicted injuries'',
        lit ''- War, terrorism, or nuclear hazard injuries'',
        lit ''- Dental treatment (except accidental)'',
        lit ''- Obesity treatment or weight-loss surgery'',
        lit ''- Experimental or unproven treatments'',
        lit ''- Substance abuse or alcoholism treatment'',
        lit ''- Fertility treatments and IVF'',
        lit ''- Spectacles, contact lenses, hearing aids'',
        lit ''- Non-allopathic treatment beyond AYUSH sub-limit'',
        lit ''- Refractive error correction (LASIK) below -7.5 dioptre'',
        lit ''- Pregnancy termination (unless medically necessary)'',
        lit ''- Congenital external diseases (if detected at birth)'',
        lit ''- HIV/AIDS and sexually transmitted diseases'',
        [],
        lit ''SUM INSURED OPTIONS: '' @ [8377] @ lit ''200,000, '' @ [8377] @ lit ''300,000, '' @ [8377] @ lit ''500,000, '' @ [8377] @ lit ''1,000,000, '' @ [8377] @ lit ''2,500,000'',
        lit ''DEFAULT SUM INSURED: '' @ [8377] @ lit ''500,000''] @ [NL]))"
  unfolding get_policy_as_prompt_text_def Let_def policy_lookups
  by (simp add: GENERALISED_POLICY_def number_formats underscores_to_spaces_def RUPEE_def
      join_nl_def lit_simps)


lemma policy_text_value:
  "get_policy_as_prompt_text GENERALISED_POLICY =
     Some (join_nl
       [lit ''POLICY: MediAudit Generalised Health Insurance Baseline v1.0'',
        [],
        lit ''ELIGIBILITY:'',
        lit ''- Age: 18'' @ [8211] @ lit ''65 years'',
        lit ''- BMI: 15.0'' @ [8211] @ lit ''40.0'',
        [],
        lit ''WAITING PERIODS:'',
        lit ''- Initial waiting: 30 days (no claims)'',
        lit ''- Pre-existing diseases (PED): 2 years'',
        lit ''- Maternity: 9 months'',
        lit ''- Specific illnesses: cataract (24m); hernia (24m); knee replacement (24m); hip replacement (24m); varicose veins (12m); sinusitis (12m); piles fistula (12m); kidney stones (12m); hysterectomy (24m); joint replacement (24m)'',
        [],
        lit ''SUB-LIMITS (INR):'',
        lit ''- Room rent: '' @ [8377] @ lit ''5,000/day'',
        lit ''- ICU: '' @ [8377] @ lit ''10,000/day'',
        lit ''- Ambulance: '' @ [8377] @ lit ''2,000/event'',
        lit ''- Cataract: '' @ [8377] @ lit ''40,000/eye'',
        lit ''- Mental health: '' @ [8377] @ lit ''50,000'',
        lit ''- AYUSH: '' @ [8377] @ lit ''20,000'',
        lit ''- Dental: EXCLUDED'',
        lit ''- Cosmetic: EXCLUDED'',
        [],
        lit ''CO-PAY:'',
        lit ''- Standard: 0%'',
        lit ''- Senior citizen (>60): 20%'',
        lit ''- Non-network hospital: 20%'',
        lit ''- PED claims: 10%'',
        [],
        lit ''PRE-EXISTING CONDITIONS (PED) '' @ [8212] @ lit '' covered after 2 years:'',
        lit ''Diabetes Mellitus (Type 1 & 2), Hypertension / High Blood Pressure, Asthma, Chronic Obstructive Pulmonary Disease (COPD), Thyroid disorders, Cardiac conditions (IHD, heart attack history), Chronic kidney disease, Cancer (within 5 years of remission), Epilepsy, Arthritis (Rheumatoid)'',
        [],
        lit ''EXCLUSIONS:'',
        lit ''- Cosmetic or aesthetic treatments'',
        lit ''- Self-inflicted injuries'',
        lit ''- War, terrorism, or nuclear hazard injuries'',
        lit ''- Dental treatment (except accidental)'',
        lit ''- Obesity treatment or weight-loss surgery'',
        lit ''- Experimental or unproven treatments'',
        lit ''- Substance abuse or alcoholism treatment'',
        lit ''- Fertility treatments and IVF'',
        lit ''- Spectacles, contact lenses, hearing aids'',
        lit ''- Non-allopathic treatment beyond AYUSH sub-limit'',
        lit ''- Refractive error correction (LASIK) below -7.5 dioptre'',
        lit ''- Pregnancy termination (unless medically necessary)'',
        lit ''- Congenital external diseases (if detected at birth)'',
        lit ''- HIV/AIDS and sexually transmitted diseases'',
        [],
        lit ''SUM INSURED OPTIONS: '' @ [8377] @ lit ''200,000, '' @ [8377] @ lit ''300,000, '' @ [8377] @ lit ''500,000, '' @ [8377] @ lit ''1,000,000, '' @ [8377] @ lit ''2,500,000'',
        lit ''DEFAULT SUM INSURED: '' @ [8377] @ lit ''500,000''])"
  (is "_ = Some (join_nl ?ls)")
proof -
  have "join_nl ?ls \<noteq> []"
    by (simp add: join_nl_def lit_simps)
  moreover have "hd (join_nl ?ls) = 80"
    by (simp add: join_nl_def lit_simps)
  moreover have "last (join_nl ?ls) = 48"
    by (subst last_join_nl) (simp_all add: lit_simps)
  ultimately have "py_strip (NL # join_nl ?ls @ [NL]) = join_nl ?ls"
    by (intro py_strip_framed) (simp_all add: is_space_def)
  then show ?thesis
    by (simp only: policy_text_unstripped)
qed

subsection \<open>Looking for a string line by line\<close>

lemma startswith_before_newline:
  "NL \<notin> set n \<Longrightarrow> startswith (a @ NL # b) n \<Longrightarrow> startswith a n"
proof (induction a n rule: startswith.induct)
  case (1 s)
  then show ?case by simp
next
  case (2 p ps)
  then show ?case by simp
next
  case (3 c cs p ps)
  then show ?case by simp
qed

lemma contains_Nil: "contains h []"
  by (induction h) simp_all

lemma contains_newline_split:
  "NL \<notin> set n \<Longrightarrow> contains (a @ NL # b) n \<Longrightarrow> contains a n \<or> contains b n"
proof (induction a)
  case Nil
  then show ?case
    by (cases n) (auto simp: contains_Nil)
next
  case (Cons c a)
  then show ?case
    using startswith_before_newline [of n "c # a" b] by auto
qed

lemma not_contains_join_nl:
  assumes "NL \<notin> set n" "n \<noteq> []" "list_all (\<lambda>l. \<not> contains l n) ls"
  shows "\<not> contains (join_nl ls) n"
  using assms(3)
proof (induction ls)
  case Nil
  then show ?case using assms(2) by (simp add: join_nl_def)
next
  case (Cons l ls)
  show ?case
  proof (cases "ls = []")
    case True
    then show ?thesis using Cons.prems by (simp add: join_nl_single)
  next
    case False
    then show ?thesis
      using Cons contains_newline_split [OF assms(1), of l "join_nl ls"]
      by (auto simp: join_nl_Cons)
  qed
qed

text \<open>
  C2. Claimed: the compact text holds every sub-limit of the record, in particular the ten
  entries of \<^verbatim>\<open>sub_limits\<close> with their values. The record gives \<^verbatim>\<open>organ_donor_inr\<close> the value
  100000 and \<^verbatim>\<open>domiciliary_treatment_inr\<close> the value 20000; the text the function returns
  names neither entry, and the number 100000 occurs in it in no spelling.
\<close>

theorem prompt_text_omits_organ_donor_limit:
  "map_of (sub_limits GENERALISED_POLICY) (lit ''organ_donor_inr'') = Some 100000 \<and>
   map_of (sub_limits GENERALISED_POLICY) (lit ''domiciliary_treatment_inr'') = Some 20000 \<and>
   (case get_policy_as_prompt_text GENERALISED_POLICY of
      None \<Rightarrow> False
    | Some text \<Rightarrow>
        \<not> contains text (lit ''100,000'') \<and> \<not> contains text (lit ''100000'') \<and>
        \<not> contains text (lit ''1,00,000'') \<and> \<not> contains text (lit ''onor'') \<and>
        \<not> contains text (lit ''omiciliary''))"
proof -
  have "map_of (sub_limits GENERALISED_POLICY) (lit ''organ_donor_inr'') = Some 100000"
    and "map_of (sub_limits GENERALISED_POLICY) (lit ''domiciliary_treatment_inr'') = Some 20000"
    by (simp_all add: GENERALISED_POLICY_def lit_simps)
  moreover have "\<not> contains (the (get_policy_as_prompt_text GENERALISED_POLICY)) (lit ''100,000'')"
    unfolding policy_text_value option.sel
    by (rule not_contains_join_nl) (simp_all add: lit_simps NL_def)
  moreover have "\<not> contains (the (get_policy_as_prompt_text GENERALISED_POLICY)) (lit ''100000'')"
    unfolding policy_text_value option.sel
    by (rule not_contains_join_nl) (simp_all add: lit_simps NL_def)
  moreover have "\<not> contains (the (get_policy_as_prompt_text GENERALISED_POLICY)) (lit ''1,00,000'')"
    unfolding policy_text_value option.sel
    by (rule not_contains_join_nl) (simp_all add: lit_simps NL_def)
  moreover have "\<not> contains (the (get_policy_as_prompt_text GENERALISED_POLICY)) (lit ''onor'')"
    unfolding policy_text_value option.sel
    by (rule not_contains_join_nl) (simp_all add: lit_simps NL_def)
  moreover have "\<not> contains (the (get_policy_as_prompt_text GENERALISED_POLICY)) (lit ''omiciliary'')"
    unfolding policy_text_value option.sel
    by (rule not_contains_join_nl) (simp_all add: lit_simps NL_def)
  moreover have "get_policy_as_prompt_text GENERALISED_POLICY \<noteq> None"
    by (simp only: policy_text_value) simp
  ultimately show ?thesis
    by (auto split: option.splits)
qed

end
